theory Spec2Isabelle
  imports Main "HOL-Library.Char_ord" "HOL-Library.List_Lexorder"
begin

section \<open>Announcements endpoints: the data model\<close>

text \<open>
  The module \<^verbatim>\<open>src/backend/routers/announcements.py\<close> maps five HTTP requests to
  operations on one document collection. A document is a Python dictionary from field
  names to values (\<^verbatim>\<open>Dict[str, Any]\<close>); the values that occur are strings, \<^verbatim>\<open>None\<close>
  (BSON null), object identifiers and, standing for every other type, booleans. Strings
  are byte strings: \<open><\<close> on them is the lexicographic order on bytes, which is the order
  of the store's default (binary) string comparison.
\<close>

type_synonym object_id = nat

datatype bson = Str string | Null | Oid object_id | Bool bool

type_synonym document = "string \<rightharpoonup> bson"

type_synonym collection = "document list"

text \<open>
  Every \<^verbatim>\<open>raise\<close> of the module and every exception that its library calls can raise is a
  value. \<open>HTTPException status detail\<close> is what the handlers raise themselves; the other
  constructors are Python exceptions that no handler of the module catches unless its
  \<^verbatim>\<open>except\<close> clause names them.
\<close>

datatype exception =
    HTTPException nat string
  | ValueError
  | TypeError
  | KeyError
  | DuplicateKeyError

text \<open>
  A parsed \<^verbatim>\<open>datetime\<close>: its position on the time line in microseconds, and whether it
  carries a UTC offset. \<open>Naive t\<close> is the wall-clock reading, \<open>Aware t\<close> the instant in UTC.
  Python orders two naive or two aware values by that position and raises \<^verbatim>\<open>TypeError\<close>
  when one is naive and the other aware.
\<close>

datatype datetime = Naive int | Aware int

fun datetime_le :: "datetime \<Rightarrow> datetime \<Rightarrow> exception + bool" where
  "datetime_le (Naive a) (Naive b) = Inr (a \<le> b)"
| "datetime_le (Aware a) (Aware b) = Inr (a \<le> b)"
| "datetime_le (Naive a) (Aware b) = Inl TypeError"
| "datetime_le (Aware a) (Naive b) = Inl TypeError"

text \<open>
  The library functions the module calls and does not define are parameters of the
  model: \<^verbatim>\<open>datetime.fromisoformat\<close> on a string (\<open>None\<close> is its \<^verbatim>\<open>ValueError\<close>),
  the constructor \<^verbatim>\<open>ObjectId\<close> on a string (\<open>None\<close> is its \<^verbatim>\<open>InvalidId\<close>), and \<^verbatim>\<open>str\<close> on
  a stored value.
\<close>

record library =
  fromisoformat :: "string \<Rightarrow> datetime option"
  ObjectId :: "string \<Rightarrow> object_id option"
  py_str :: "bson \<Rightarrow> string"

text \<open>
  \<^verbatim>\<open>datetime.fromisoformat(v)\<close> on a value of any type: a string is parsed, anything else
  (in particular \<^verbatim>\<open>None\<close>) raises \<^verbatim>\<open>TypeError\<close>.
\<close>

definition py_fromisoformat :: "library \<Rightarrow> bson \<Rightarrow> exception + datetime" where
  "py_fromisoformat L v =
     (case v of
        Str s \<Rightarrow> (case fromisoformat L s of None \<Rightarrow> Inl ValueError | Some t \<Rightarrow> Inr t)
      | _ \<Rightarrow> Inl TypeError)"

text \<open>
  The body of the two \<^verbatim>\<open>try\<close> blocks (lines 77-78 and 141-142): the start date is
  parsed first, then the expiration date; the first exception ends the block.
\<close>

definition parse_dates :: "library \<Rightarrow> bson \<Rightarrow> bson \<Rightarrow> exception + (datetime \<times> datetime)" where
  "parse_dates L start_date expiration_date =
     (case py_fromisoformat L start_date of
        Inl e \<Rightarrow> Inl e
      | Inr start_dt \<Rightarrow>
          (case py_fromisoformat L expiration_date of
             Inl e \<Rightarrow> Inl e
           | Inr expiry_dt \<Rightarrow> Inr (start_dt, expiry_dt)))"

text \<open>\<^verbatim>\<open>dict.get(key)\<close>: the value, or \<^verbatim>\<open>None\<close> when the key is absent.\<close>

definition py_get :: "document \<Rightarrow> string \<Rightarrow> bson" where
  "py_get d k = (case d k of None \<Rightarrow> Null | Some v \<Rightarrow> v)"

section \<open>The document store\<close>

text \<open>
  The query documents the module passes to the store. \<open>Field f c\<close> is \<^verbatim>\<open>{f: c}\<close> with
  \<open>c\<close> one of \<^verbatim>\<open>{"$gt": s}\<close>, \<^verbatim>\<open>{"$lte": s}\<close>, \<^verbatim>\<open>{"$exists": b}\<close> or a plain value;
  \<open>Empty\<close> is \<^verbatim>\<open>{}\<close>. A comparison with a string selects string values only; equality
  with null also selects the documents that lack the field.
\<close>

datatype cond = Gt string | Lte string | Exists bool | Eq bson

datatype query = Field string cond | And "query list" | Or "query list" | Empty

fun holds :: "cond \<Rightarrow> bson option \<Rightarrow> bool" where
  "holds (Gt s) v = (case v of Some (Str t) \<Rightarrow> s < t | _ \<Rightarrow> False)"
| "holds (Lte s) v = (case v of Some (Str t) \<Rightarrow> t \<le> s | _ \<Rightarrow> False)"
| "holds (Exists b) v = ((v \<noteq> None) = b)"
| "holds (Eq Null) v = (v = None \<or> v = Some Null)"
| "holds (Eq (Str s)) v = (v = Some (Str s))"
| "holds (Eq (Oid i)) v = (v = Some (Oid i))"
| "holds (Eq (Bool b)) v = (v = Some (Bool b))"

fun matches :: "query \<Rightarrow> document \<Rightarrow> bool" where
  "matches (Field f c) d = holds c (d f)"
| "matches (And qs) d = (\<forall>q \<in> set qs. matches q d)"
| "matches (Or qs) d = (\<exists>q \<in> set qs. matches q d)"
| "matches Empty d = True"


fun find_one :: "collection \<Rightarrow> query \<Rightarrow> document option" where
  "find_one [] q = None"
| "find_one (d # ds) q = (if matches q d then Some d else find_one ds q)"

text \<open>
  \<^verbatim>\<open>insert_one\<close> of a document without \<^verbatim>\<open>_id\<close>: the driver generates the identifier
  (\<open>fresh\<close>, an input of the model), the store refuses a second document with the same
  \<^verbatim>\<open>_id\<close>. The result carries \<^verbatim>\<open>inserted_id\<close>.
\<close>

definition insert_one :: "object_id \<Rightarrow> collection \<Rightarrow> document \<Rightarrow> exception + (collection \<times> object_id)" where
  "insert_one fresh coll doc =
     (if (\<exists>d \<in> set coll. d ''_id'' = Some (Oid fresh)) then Inl DuplicateKeyError
      else Inr (coll @ [doc(''_id'' \<mapsto> Oid fresh)], fresh))"

text \<open>
  \<^verbatim>\<open>update_one(q, {"$set": update_data})\<close>: the first matching document gets the fields
  of \<open>update_data\<close>; the result carries \<^verbatim>\<open>matched_count\<close>.
\<close>

fun update_one :: "collection \<Rightarrow> query \<Rightarrow> (string \<times> bson) list \<Rightarrow> collection \<times> nat" where
  "update_one [] q update_data = ([], 0)"
| "update_one (d # ds) q update_data =
     (if matches q d then ((d ++ map_of update_data) # ds, 1)
      else (case update_one ds q update_data of (ds', n) \<Rightarrow> (d # ds', n)))"

text \<open>\<^verbatim>\<open>delete_one(q)\<close>: the first matching document goes; the result carries \<^verbatim>\<open>deleted_count\<close>.\<close>

fun delete_one :: "collection \<Rightarrow> query \<Rightarrow> collection \<times> nat" where
  "delete_one [] q = ([], 0)"
| "delete_one (d # ds) q =
     (if matches q d then (ds, 1)
      else (case delete_one ds q of (ds', n) \<Rightarrow> (d # ds', n)))"

section \<open>The endpoints\<close>




text \<open>
  \<^verbatim>\<open>create_announcement\<close>. \<open>now\<close> is the clock reading of line 73, \<open>created\<close> the one of
  line 93, \<open>fresh\<close> the identifier the driver generates. A handler that writes returns the
  collection as it leaves it, with its result or the exception it ends in.
\<close>

definition create_announcement ::
  "library \<Rightarrow> string \<Rightarrow> string \<Rightarrow> object_id \<Rightarrow> collection \<Rightarrow>
   string \<Rightarrow> string \<Rightarrow> string \<Rightarrow> string option \<Rightarrow> collection \<times> (exception + document)" where
  "create_announcement L now created fresh coll title message expiration_date start_date =
     (let start_date = (case start_date of None \<Rightarrow> now | Some s \<Rightarrow> if s = [] then now else s) in
      case parse_dates L (Str start_date) (Str expiration_date) of
        Inl ValueError \<Rightarrow> (coll, Inl (HTTPException 400 ''Invalid date format''))
      | Inl e \<Rightarrow> (coll, Inl e)
      | Inr (start_dt, expiry_dt) \<Rightarrow>
          (case datetime_le expiry_dt start_dt of
             Inl e \<Rightarrow> (coll, Inl e)
           | Inr True \<Rightarrow> (coll, Inl (HTTPException 400 ''Expiration date must be after start date''))
           | Inr False \<Rightarrow>
               (let new_announcement =
                  [''title'' \<mapsto> Str title,
                   ''message'' \<mapsto> Str message,
                   ''start_date'' \<mapsto> Str start_date,
                   ''expiration_date'' \<mapsto> Str expiration_date,
                   ''created_at'' \<mapsto> Str created]
                in case insert_one fresh coll new_announcement of
                     Inl e \<Rightarrow> (coll, Inl e)
                   | Inr (coll', inserted_id) \<Rightarrow>
                       (coll', Inr (new_announcement(''_id'' \<mapsto> Str (py_str L (Oid inserted_id))))))))"

text \<open>Lines 118-126 of \<^verbatim>\<open>update_announcement\<close>: the dictionary of the supplied fields.\<close>

definition build_update_data ::
  "string option \<Rightarrow> string option \<Rightarrow> string option \<Rightarrow> string option \<Rightarrow> (string \<times> bson) list" where
  "build_update_data title message expiration_date start_date =
     (case title of None \<Rightarrow> [] | Some t \<Rightarrow> [(''title'', Str t)]) @
     (case message of None \<Rightarrow> [] | Some m \<Rightarrow> [(''message'', Str m)]) @
     (case expiration_date of None \<Rightarrow> [] | Some e \<Rightarrow> [(''expiration_date'', Str e)]) @
     (case start_date of None \<Rightarrow> [] | Some s \<Rightarrow> [(''start_date'', Str s)])"

text \<open>\<^verbatim>\<open>update_data.get(key, default)\<close>.\<close>

definition get_default :: "(string \<times> bson) list \<Rightarrow> string \<Rightarrow> bson \<Rightarrow> bson" where
  "get_default update_data k dflt = (case map_of update_data k of None \<Rightarrow> dflt | Some v \<Rightarrow> v)"

text \<open>
  Lines 133-150 of \<^verbatim>\<open>update_announcement\<close>, the body of \<^verbatim>\<open>if "start_date" in update_data
  or "expiration_date" in update_data\<close>: it ends in an exception or falls through.
\<close>

definition validate_dates :: "library \<Rightarrow> collection \<Rightarrow> object_id \<Rightarrow> (string \<times> bson) list \<Rightarrow> exception + unit" where
  "validate_dates L coll obj_id update_data =
     (case find_one coll (Field ''_id'' (Eq (Oid obj_id))) of
        None \<Rightarrow> Inl (HTTPException 404 ''Announcement not found'')
      | Some announcement \<Rightarrow>
          (let start_dt_str = get_default update_data ''start_date'' (py_get announcement ''start_date'');
               expiry_dt_str = get_default update_data ''expiration_date'' (py_get announcement ''expiration_date'')
           in case parse_dates L start_dt_str expiry_dt_str of
                Inl ValueError \<Rightarrow> Inl (HTTPException 400 ''Invalid date format'')
              | Inl e \<Rightarrow> Inl e
              | Inr (start_dt, expiry_dt) \<Rightarrow>
                  (case datetime_le expiry_dt start_dt of
                     Inl e \<Rightarrow> Inl e
                   | Inr True \<Rightarrow> Inl (HTTPException 400 ''Expiration date must be after start date'')
                   | Inr False \<Rightarrow> Inr ())))"

definition update_announcement ::
  "library \<Rightarrow> collection \<Rightarrow> string \<Rightarrow> string option \<Rightarrow> string option \<Rightarrow> string option \<Rightarrow> string option \<Rightarrow>
   collection \<times> (exception + document)" where
  "update_announcement L coll announcement_id title message expiration_date start_date =
     (case ObjectId L announcement_id of
        None \<Rightarrow> (coll, Inl (HTTPException 400 ''Invalid announcement ID''))
      | Some obj_id \<Rightarrow>
          (let update_data = build_update_data title message expiration_date start_date in
           if update_data = [] then (coll, Inl (HTTPException 400 ''No fields to update''))
           else
             (case (if map_of update_data ''start_date'' \<noteq> None \<or> map_of update_data ''expiration_date'' \<noteq> None
                    then validate_dates L coll obj_id update_data else Inr ()) of
                Inl e \<Rightarrow> (coll, Inl e)
              | Inr _ \<Rightarrow>
                  (case update_one coll (Field ''_id'' (Eq (Oid obj_id))) update_data of
                     (coll', matched_count) \<Rightarrow>
                       if matched_count = 0 then (coll', Inl (HTTPException 404 ''Announcement not found''))
                       else
                         (case find_one coll' (Field ''_id'' (Eq (Oid obj_id))) of
                            None \<Rightarrow> (coll', Inl TypeError)
                          | Some updated_announcement \<Rightarrow>
                              (case updated_announcement ''_id'' of
                                 None \<Rightarrow> (coll', Inl KeyError)
                               | Some i \<Rightarrow> (coll', Inr (updated_announcement(''_id'' \<mapsto> Str (py_str L i))))))))))"

definition delete_announcement ::
  "library \<Rightarrow> collection \<Rightarrow> string \<Rightarrow> collection \<times> (exception + (string \<times> string) list)" where
  "delete_announcement L coll announcement_id =
     (case ObjectId L announcement_id of
        None \<Rightarrow> (coll, Inl (HTTPException 400 ''Invalid announcement ID''))
      | Some obj_id \<Rightarrow>
          (case delete_one coll (Field ''_id'' (Eq (Oid obj_id))) of
             (coll', deleted_count) \<Rightarrow>
               if deleted_count = 0 then (coll', Inl (HTTPException 404 ''Announcement not found''))
               else (coll', Inr [(''message'', ''Announcement deleted successfully'')])))"

section \<open>A library instance for concrete calls\<close>

text \<open>
  The theorems below hold for every \<open>library\<close>. The concrete calls are run with the
  following instance. \<open>ObjectId_hex\<close> accepts the 24-digit hexadecimal strings.
  \<open>fromisoformat_seconds\<close> is a fragment of \<^verbatim>\<open>datetime.fromisoformat\<close>: it accepts the
  form \<^verbatim>\<open>YYYY-MM-DDTHH:MM:SS\<close> and the same form with a space in the place of
  \<^verbatim>\<open>T\<close>, neither of which has a UTC offset, and returns the microseconds since the
  start of year 1 as Python's proleptic Gregorian calendar counts them. \<open>str_value\<close> is \<^verbatim>\<open>str\<close> on the four kinds of value.
\<close>

definition hex_digit :: "char \<Rightarrow> nat option" where
  "hex_digit c =
     (let n = (of_char c :: nat) in
      if 48 \<le> n \<and> n \<le> 57 then Some (n - 48)
      else if 97 \<le> n \<and> n \<le> 102 then Some (n - 87)
      else if 65 \<le> n \<and> n \<le> 70 then Some (n - 55)
      else None)"

fun hex_value :: "nat \<Rightarrow> string \<Rightarrow> nat option" where
  "hex_value acc [] = Some acc"
| "hex_value acc (c # cs) =
     (case hex_digit c of None \<Rightarrow> None | Some v \<Rightarrow> hex_value (16 * acc + v) cs)"

definition ObjectId_hex :: "string \<Rightarrow> object_id option" where
  "ObjectId_hex s = (if length s = 24 then hex_value 0 s else None)"

fun hex_string :: "nat \<Rightarrow> nat \<Rightarrow> string" where
  "hex_string 0 v = []"
| "hex_string (Suc n) v = hex_string n (v div 16) @ [''0123456789abcdef'' ! (v mod 16)]"

fun str_value :: "bson \<Rightarrow> string" where
  "str_value (Str s) = s"
| "str_value Null = ''None''"
| "str_value (Oid i) = hex_string 24 i"
| "str_value (Bool b) = (if b then ''True'' else ''False'')"

definition decimal :: "string \<Rightarrow> nat option" where
  "decimal s =
     (if list_all (\<lambda>c. 48 \<le> (of_char c :: nat) \<and> (of_char c :: nat) \<le> 57) s
      then Some (foldl (\<lambda>n c. 10 * n + (of_char c - 48)) 0 s)
      else None)"

definition is_leap :: "nat \<Rightarrow> bool" where
  "is_leap y = (y mod 4 = 0 \<and> (y mod 100 \<noteq> 0 \<or> y mod 400 = 0))"

definition month_lengths :: "nat \<Rightarrow> nat list" where
  "month_lengths y = [31, if is_leap y then 29 else 28, 31, 30, 31, 30, 31, 31, 30, 31, 30, 31]"

definition days_in_month :: "nat \<Rightarrow> nat \<Rightarrow> nat" where
  "days_in_month y m = month_lengths y ! (m - 1)"

definition ordinal :: "nat \<Rightarrow> nat \<Rightarrow> nat \<Rightarrow> nat" where
  "ordinal y m d =
     (y - 1) * 365 + (y - 1) div 4 - (y - 1) div 100 + (y - 1) div 400
     + sum_list (take (m - 1) (month_lengths y)) + d"

definition fromisoformat_seconds :: "string \<Rightarrow> datetime option" where
  "fromisoformat_seconds s =
     (if length s = 19 \<and> s ! 4 = CHR ''-'' \<and> s ! 7 = CHR ''-'' \<and> (s ! 10 = CHR ''T'' \<or> s ! 10 = CHR '' '')
         \<and> s ! 13 = CHR '':'' \<and> s ! 16 = CHR '':''
      then
        (case (decimal (take 4 s), decimal (take 2 (drop 5 s)), decimal (take 2 (drop 8 s)),
               decimal (take 2 (drop 11 s)), decimal (take 2 (drop 14 s)), decimal (take 2 (drop 17 s))) of
           (Some y, Some m, Some d, Some h, Some mi, Some sec) \<Rightarrow>
             if 1 \<le> y \<and> 1 \<le> m \<and> m \<le> 12 \<and> 1 \<le> d \<and> d \<le> days_in_month y m
                \<and> h < 24 \<and> mi < 60 \<and> sec < 60
             then Some (Naive (int ((((ordinal y m d - 1) * 24 + h) * 60 + mi) * 60 + sec) * 1000000))
             else None
         | _ \<Rightarrow> None)
      else None)"

definition lib :: library where
  "lib = \<lparr>fromisoformat = fromisoformat_seconds, ObjectId = ObjectId_hex, py_str = str_value\<rparr>"

text \<open>
  The stored documents of the concrete calls: \<open>exam\<close> is the record of the
  specification's scenario, \<open>legacy\<close> has no \<^verbatim>\<open>start_date\<close> field, and the dates of
  \<open>inverted\<close> are in the wrong order. The expiration date of \<open>concert\<close> and the start
  date of \<open>play\<close> are written with a space between date and time, which
  \<^verbatim>\<open>datetime.fromisoformat\<close> accepts. Each \<open>_oid\<close> is the number its \<open>_id\<close> string
  denotes in hexadecimal.
\<close>

definition exam_id :: string where
  "exam_id = ''507f1f77bcf86cd799439011''"

definition exam_oid :: object_id where
  "exam_oid = 24912482966938930280208240657"

definition exam :: document where
  "exam = [''title'' \<mapsto> Str ''Exam'', ''message'' \<mapsto> Str ''Finals week'',
           ''start_date'' \<mapsto> Str ''2024-01-01T00:00:00'',
           ''expiration_date'' \<mapsto> Str ''2099-01-01T00:00:00'',
           ''created_at'' \<mapsto> Str ''2023-12-01T09:30:00'',
           ''_id'' \<mapsto> Oid exam_oid]"

definition legacy_id :: string where
  "legacy_id = ''507f1f77bcf86cd799439012''"

definition legacy_oid :: object_id where
  "legacy_oid = 24912482966938930280208240658"

definition legacy :: document where
  "legacy = [''title'' \<mapsto> Str ''Welcome'', ''message'' \<mapsto> Str ''Term starts'',
             ''expiration_date'' \<mapsto> Str ''2099-01-01T00:00:00'',
             ''_id'' \<mapsto> Oid legacy_oid]"

definition inverted_id :: string where
  "inverted_id = ''507f1f77bcf86cd799439013''"

definition inverted_oid :: object_id where
  "inverted_oid = 24912482966938930280208240659"

definition inverted :: document where
  "inverted = [''title'' \<mapsto> Str ''Trip'', ''message'' \<mapsto> Str ''Museum'',
               ''start_date'' \<mapsto> Str ''2024-06-01T00:00:00'',
               ''expiration_date'' \<mapsto> Str ''2024-01-01T00:00:00'',
               ''_id'' \<mapsto> Oid inverted_oid]"

definition concert_id :: string where
  "concert_id = ''507f1f77bcf86cd799439014''"

definition concert_oid :: object_id where
  "concert_oid = 24912482966938930280208240660"


definition play_id :: string where
  "play_id = ''507f1f77bcf86cd799439015''"

definition play_oid :: object_id where
  "play_oid = 24912482966938930280208240661"


section \<open>The vocabulary of the specification\<close>

text \<open>
  The definitions of this section follow the words of the specification; the theorems
  compare them with the handlers above. \<open>by_id i\<close> is the query \<^verbatim>\<open>{"_id": obj_id}\<close> of
  the handlers. \<open>later_than a b\<close> is \<open>a > b\<close> on parsed timestamps and
  \<open>not_later_than a b\<close> is \<open>a \<le> b\<close>; neither holds between a naive and an aware
  timestamp. \<open>dates_ordered\<close> is the invariant \<^verbatim>\<open>expiration_date > start_date\<close> of a
  stored record. \<open>effective_start\<close> is the start date a create call works with,
  \<open>merged\<close> a supplied value laid over the value of the stored record.
  \<open>expires_after\<close> is "\<^verbatim>\<open>expiration_date\<close> strictly greater than the current instant"
  and \<open>started_by\<close> is "\<^verbatim>\<open>start_date\<close> absent, null, or at or before now": both
  compare the parsed timestamp of the stored date with the parsed timestamp of \<open>now\<close>.
  \<open>distinct_ids\<close> says that no two documents share an \<^verbatim>\<open>_id\<close>.
\<close>

abbreviation by_id :: "object_id \<Rightarrow> query" where
  "by_id i \<equiv> Field ''_id'' (Eq (Oid i))"

fun later_than :: "datetime \<Rightarrow> datetime \<Rightarrow> bool" where
  "later_than (Naive a) (Naive b) = (b < a)"
| "later_than (Aware a) (Aware b) = (b < a)"
| "later_than (Naive a) (Aware b) = False"
| "later_than (Aware a) (Naive b) = False"

fun not_later_than :: "datetime \<Rightarrow> datetime \<Rightarrow> bool" where
  "not_later_than (Naive a) (Naive b) = (a \<le> b)"
| "not_later_than (Aware a) (Aware b) = (a \<le> b)"
| "not_later_than (Naive a) (Aware b) = False"
| "not_later_than (Aware a) (Naive b) = False"

definition dates_ordered :: "library \<Rightarrow> document \<Rightarrow> bool" where
  "dates_ordered L d =
     (case (d ''start_date'', d ''expiration_date'') of
        (Some (Str s), Some (Str e)) \<Rightarrow>
          (case (fromisoformat L s, fromisoformat L e) of
             (Some start_dt, Some expiry_dt) \<Rightarrow> later_than expiry_dt start_dt
           | _ \<Rightarrow> False)
      | _ \<Rightarrow> False)"

definition effective_start :: "string \<Rightarrow> string option \<Rightarrow> string" where
  "effective_start now start_date =
     (case start_date of None \<Rightarrow> now | Some s \<Rightarrow> if s = [] then now else s)"

definition merged :: "string option \<Rightarrow> document \<Rightarrow> string \<Rightarrow> bson" where
  "merged supplied announcement field =
     (case supplied of Some s \<Rightarrow> Str s | None \<Rightarrow> py_get announcement field)"



definition distinct_ids :: "collection \<Rightarrow> bool" where
  "distinct_ids coll = distinct (map (\<lambda>d. d ''_id'') coll)"



text \<open>
  The collections the three writing handlers can produce from the empty collection,
  whatever their arguments, clock readings and generated identifiers are and whether
  the calls succeed or fail; the two reading handlers leave the collection as it is.
\<close>

inductive reachable :: "library \<Rightarrow> collection \<Rightarrow> bool" for L :: library where
  initial: "reachable L []"
| create: "reachable L coll \<Longrightarrow>
     reachable L (fst (create_announcement L now created fresh coll title message expiration_date start_date))"
| update: "reachable L coll \<Longrightarrow>
     reachable L (fst (update_announcement L coll announcement_id title message expiration_date start_date))"
| delete: "reachable L coll \<Longrightarrow>
     reachable L (fst (delete_announcement L coll announcement_id))"

definition store_invariant :: "library \<Rightarrow> collection \<Rightarrow> bool" where
  "store_invariant L coll = (distinct_ids coll \<and> (\<forall>d \<in> set coll. dates_ordered L d))"

section \<open>The store operations\<close>

text \<open>
  What \<open>find_one\<close>, \<open>update_one\<close> and \<open>delete_one\<close> do to the first matching document
  of a collection, and what the two list queries select.
\<close>

lemma find_one_None_iff: "find_one coll q = None \<longleftrightarrow> (\<forall>d \<in> set coll. \<not> matches q d)"
  by (induction coll) auto

lemma find_one_split:
  "find_one coll q = Some d \<Longrightarrow>
   \<exists>pre post. coll = pre @ d # post \<and> (\<forall>x \<in> set pre. \<not> matches q x) \<and> matches q d"
proof (induction coll)
  case Nil
  then show ?case by simp
next
  case (Cons a coll)
  show ?case
  proof (cases "matches q a")
    case True
    with Cons.prems have "a = d" by simp
    with True have "a # coll = [] @ d # coll \<and> (\<forall>x \<in> set []. \<not> matches q x) \<and> matches q d"
      by simp
    then show ?thesis by blast
  next
    case False
    with Cons.prems have "find_one coll q = Some d" by simp
    from Cons.IH [OF this] obtain pre post where
      "coll = pre @ d # post" "\<forall>x \<in> set pre. \<not> matches q x" "matches q d" by blast
    with False have "a # coll = (a # pre) @ d # post \<and> (\<forall>x \<in> set (a # pre). \<not> matches q x) \<and> matches q d"
      by simp
    then show ?thesis by blast
  qed
qed

lemma find_one_at:
  "\<forall>x \<in> set pre. \<not> matches q x \<Longrightarrow> matches q d \<Longrightarrow> find_one (pre @ d # post) q = Some d"
  by (induction pre) auto

lemma update_one_at:
  "\<forall>x \<in> set pre. \<not> matches q x \<Longrightarrow> matches q d \<Longrightarrow>
   update_one (pre @ d # post) q u = (pre @ (d ++ map_of u) # post, 1)"
  by (induction pre) auto

lemma update_one_none: "\<forall>x \<in> set coll. \<not> matches q x \<Longrightarrow> update_one coll q u = (coll, 0)"
  by (induction coll) auto

lemma delete_one_at:
  "\<forall>x \<in> set pre. \<not> matches q x \<Longrightarrow> matches q d \<Longrightarrow>
   delete_one (pre @ d # post) q = (pre @ post, 1)"
  by (induction pre) auto

lemma delete_one_none: "\<forall>x \<in> set coll. \<not> matches q x \<Longrightarrow> delete_one coll q = (coll, 0)"
  by (induction coll) auto

lemma delete_one_sublist:
  "distinct (map f coll) \<Longrightarrow> distinct (map f (fst (delete_one coll q))) \<and>
   set (fst (delete_one coll q)) \<subseteq> set coll"
  by (induction coll) (auto split: prod.splits)

lemma remove1_at:
  assumes "\<forall>x \<in> set pre. \<not> matches q x" and "matches q d"
  shows "remove1 d (pre @ d # post) = pre @ post"
proof -
  have "d \<notin> set pre" using assms by blast
  then show ?thesis by (simp add: remove1_append)
qed

lemma find_one_distinct_removed:
  assumes "distinct_ids (pre @ d # post)" and "d ''_id'' = Some (Oid obj_id)"
  shows "find_one (pre @ post) (by_id obj_id) = None"
proof -
  have "\<forall>x \<in> set (pre @ post). x ''_id'' \<noteq> d ''_id''"
    using assms(1) by (fastforce simp: distinct_ids_def image_iff)
  then have "\<forall>x \<in> set (pre @ post). \<not> matches (by_id obj_id) x"
    using assms(2) by simp
  then show ?thesis by (simp only: find_one_None_iff)
qed



section \<open>Parsing and comparing dates\<close>

text \<open>
  The comparison of the handlers in the vocabulary of the specification, and the create
  handler as one case distinction over its outcomes.
\<close>

lemma datetime_le_cases:
  "datetime_le x y =
     (if not_later_than x y then Inr True else if later_than x y then Inr False else Inl TypeError)"
  by (cases x; cases y) auto

lemma py_fromisoformat_Str:
  "py_fromisoformat L (Str s) = (case fromisoformat L s of None \<Rightarrow> Inl ValueError | Some t \<Rightarrow> Inr t)"
  by (simp add: py_fromisoformat_def)

lemma py_fromisoformat_Inr_iff:
  "py_fromisoformat L v = Inr t \<longleftrightarrow> (\<exists>s. v = Str s \<and> fromisoformat L s = Some t)"
  by (auto simp: py_fromisoformat_def split: bson.splits option.splits)

lemma parse_dates_Str:
  "parse_dates L (Str s) (Str e) =
     (case fromisoformat L s of
        None \<Rightarrow> Inl ValueError
      | Some start_dt \<Rightarrow>
          (case fromisoformat L e of None \<Rightarrow> Inl ValueError | Some expiry_dt \<Rightarrow> Inr (start_dt, expiry_dt)))"
  by (simp add: parse_dates_def py_fromisoformat_def split: option.splits)

lemma dates_orderedI:
  "d ''start_date'' = Some (Str s) \<Longrightarrow> d ''expiration_date'' = Some (Str e) \<Longrightarrow>
   fromisoformat L s = Some start_dt \<Longrightarrow> fromisoformat L e = Some expiry_dt \<Longrightarrow>
   later_than expiry_dt start_dt \<Longrightarrow> dates_ordered L d"
  by (simp add: dates_ordered_def)

lemma dates_ordered_stringify:
  "dates_ordered L (d(''_id'' \<mapsto> v)) = dates_ordered L d"
  by (simp add: dates_ordered_def)

lemma dates_ordered_cong:
  "d' ''start_date'' = d ''start_date'' \<Longrightarrow> d' ''expiration_date'' = d ''expiration_date'' \<Longrightarrow>
   dates_ordered L d' = dates_ordered L d"
  by (simp add: dates_ordered_def)

lemma create_announcement_unfold:
  "create_announcement L now created fresh coll title message expiration_date start_date =
     (case fromisoformat L (effective_start now start_date) of
        None \<Rightarrow> (coll, Inl (HTTPException 400 ''Invalid date format''))
      | Some start_dt \<Rightarrow>
          (case fromisoformat L expiration_date of
             None \<Rightarrow> (coll, Inl (HTTPException 400 ''Invalid date format''))
           | Some expiry_dt \<Rightarrow>
               if not_later_than expiry_dt start_dt
               then (coll, Inl (HTTPException 400 ''Expiration date must be after start date''))
               else if \<not> later_than expiry_dt start_dt then (coll, Inl TypeError)
               else if (\<exists>d \<in> set coll. d ''_id'' = Some (Oid fresh)) then (coll, Inl DuplicateKeyError)
               else
                 (coll @ [[''title'' \<mapsto> Str title, ''message'' \<mapsto> Str message,
                           ''start_date'' \<mapsto> Str (effective_start now start_date),
                           ''expiration_date'' \<mapsto> Str expiration_date,
                           ''created_at'' \<mapsto> Str created, ''_id'' \<mapsto> Oid fresh]],
                  Inr [''title'' \<mapsto> Str title, ''message'' \<mapsto> Str message,
                       ''start_date'' \<mapsto> Str (effective_start now start_date),
                       ''expiration_date'' \<mapsto> Str expiration_date,
                       ''created_at'' \<mapsto> Str created, ''_id'' \<mapsto> Str (py_str L (Oid fresh))])))"
  unfolding create_announcement_def effective_start_def [symmetric] Let_def parse_dates_Str
  by (simp add: datetime_le_cases insert_one_def split: option.splits)

lemma create_announcement_fst:
  "fst (create_announcement L now created fresh coll title message expiration_date start_date) = coll \<or>
   (\<exists>d. fst (create_announcement L now created fresh coll title message expiration_date start_date) = coll @ [d] \<and>
        d ''_id'' = Some (Oid fresh) \<and> (\<forall>x \<in> set coll. x ''_id'' \<noteq> Some (Oid fresh)) \<and>
        dates_ordered L d)"
  unfolding create_announcement_unfold
  by (auto simp: dates_ordered_def split: option.splits)

section \<open>The update handler, path by path\<close>

text \<open>
  The update dictionary, the date check on the merged values, and then one lemma for
  each way through \<open>update_announcement\<close>: malformed identifier, no field, failed date
  check, no matching record, success.
\<close>

lemma map_of_build_update_data:
  "map_of (build_update_data title message expiration_date start_date) k =
     (if k = ''title'' then map_option Str title
      else if k = ''message'' then map_option Str message
      else if k = ''expiration_date'' then map_option Str expiration_date
      else if k = ''start_date'' then map_option Str start_date
      else None)"
  by (auto simp: build_update_data_def map_add_def split: option.splits)

lemma build_update_data_Nil:
  "build_update_data title message expiration_date start_date = [] \<longleftrightarrow>
   title = None \<and> message = None \<and> expiration_date = None \<and> start_date = None"
  by (auto simp: build_update_data_def split: option.splits)

lemma map_of_build_update_data_id [simp]:
  "map_of (build_update_data title message expiration_date start_date) ''_id'' = None"
  by (simp add: map_of_build_update_data)

lemma date_supplied_iff:
  "(map_of (build_update_data title message expiration_date start_date) ''start_date'' \<noteq> None \<or>
    map_of (build_update_data title message expiration_date start_date) ''expiration_date'' \<noteq> None)
   \<longleftrightarrow> (start_date \<noteq> None \<or> expiration_date \<noteq> None)"
  by (auto simp: map_of_build_update_data)

lemma get_default_build_update_data:
  "get_default (build_update_data title message expiration_date start_date) ''start_date''
     (py_get d ''start_date'') = merged start_date d ''start_date''"
  "get_default (build_update_data title message expiration_date start_date) ''expiration_date''
     (py_get d ''expiration_date'') = merged expiration_date d ''expiration_date''"
  by (simp_all add: get_default_def merged_def map_of_build_update_data split: option.splits)

lemma validate_dates_unfold:
  assumes "find_one coll (by_id obj_id) = Some d"
  shows "validate_dates L coll obj_id (build_update_data title message expiration_date start_date) =
     (case py_fromisoformat L (merged start_date d ''start_date'') of
        Inl e \<Rightarrow> if e = ValueError then Inl (HTTPException 400 ''Invalid date format'') else Inl e
      | Inr start_dt \<Rightarrow>
          (case py_fromisoformat L (merged expiration_date d ''expiration_date'') of
             Inl e \<Rightarrow> if e = ValueError then Inl (HTTPException 400 ''Invalid date format'') else Inl e
           | Inr expiry_dt \<Rightarrow>
               if not_later_than expiry_dt start_dt
               then Inl (HTTPException 400 ''Expiration date must be after start date'')
               else if later_than expiry_dt start_dt then Inr ()
               else Inl TypeError))"
  unfolding validate_dates_def Let_def get_default_build_update_data parse_dates_def
  using assms by (simp add: datetime_le_cases split: sum.splits exception.splits)

lemma validate_dates_ok:
  assumes "validate_dates L coll obj_id (build_update_data title message expiration_date start_date) = Inr ()"
    and "find_one coll (by_id obj_id) = Some d"
  shows "\<exists>s e start_dt expiry_dt.
           merged start_date d ''start_date'' = Str s \<and> merged expiration_date d ''expiration_date'' = Str e \<and>
           fromisoformat L s = Some start_dt \<and> fromisoformat L e = Some expiry_dt \<and>
           later_than expiry_dt start_dt"
  using assms(1) unfolding validate_dates_unfold [OF assms(2)]
  by (auto simp: py_fromisoformat_Inr_iff split: sum.splits if_splits)

lemma validate_dates_strings:
  assumes "find_one coll (by_id obj_id) = Some d"
    and "merged start_date d ''start_date'' = Str s"
    and "merged expiration_date d ''expiration_date'' = Str e"
  shows "validate_dates L coll obj_id (build_update_data title message expiration_date start_date) =
     (case (fromisoformat L s, fromisoformat L e) of
        (Some start_dt, Some expiry_dt) \<Rightarrow>
          if not_later_than expiry_dt start_dt
          then Inl (HTTPException 400 ''Expiration date must be after start date'')
          else if later_than expiry_dt start_dt then Inr ()
          else Inl TypeError
      | _ \<Rightarrow> Inl (HTTPException 400 ''Invalid date format''))"
  unfolding validate_dates_unfold [OF assms(1)] assms(2,3) py_fromisoformat_Str
  by (simp split: option.splits)

lemma merged_stored:
  "merged start_date d ''start_date'' = Str s \<Longrightarrow>
   (d ++ map_of (build_update_data title message expiration_date start_date)) ''start_date'' = Some (Str s)"
  "merged expiration_date d ''expiration_date'' = Str e \<Longrightarrow>
   (d ++ map_of (build_update_data title message expiration_date start_date)) ''expiration_date'' = Some (Str e)"
  by (auto simp: merged_def py_get_def map_add_def map_of_build_update_data split: option.splits)

lemma update_announcement_invalid_id:
  "ObjectId L announcement_id = None \<Longrightarrow>
   update_announcement L coll announcement_id title message expiration_date start_date =
     (coll, Inl (HTTPException 400 ''Invalid announcement ID''))"
  by (simp add: update_announcement_def)

lemma update_announcement_no_fields:
  "ObjectId L announcement_id = Some obj_id \<Longrightarrow>
   update_announcement L coll announcement_id None None None None =
     (coll, Inl (HTTPException 400 ''No fields to update''))"
  by (simp add: update_announcement_def build_update_data_def)

lemma update_announcement_check_fails:
  assumes "ObjectId L announcement_id = Some obj_id"
    and "start_date \<noteq> None \<or> expiration_date \<noteq> None"
    and "validate_dates L coll obj_id (build_update_data title message expiration_date start_date) = Inl e"
  shows "update_announcement L coll announcement_id title message expiration_date start_date = (coll, Inl e)"
proof -
  have "build_update_data title message expiration_date start_date \<noteq> []"
    using assms(2) by (auto simp: build_update_data_Nil)
  then show ?thesis
    using assms date_supplied_iff [of title message expiration_date start_date]
    by (simp add: update_announcement_def Let_def)
qed

lemma update_announcement_absent:
  assumes "ObjectId L announcement_id = Some obj_id"
    and "title \<noteq> None \<or> message \<noteq> None \<or> expiration_date \<noteq> None \<or> start_date \<noteq> None"
    and "find_one coll (by_id obj_id) = None"
  shows "update_announcement L coll announcement_id title message expiration_date start_date =
           (coll, Inl (HTTPException 404 ''Announcement not found''))"
proof (cases "start_date \<noteq> None \<or> expiration_date \<noteq> None")
  case True
  have "validate_dates L coll obj_id (build_update_data title message expiration_date start_date) =
          Inl (HTTPException 404 ''Announcement not found'')"
    using assms(3) by (simp add: validate_dates_def)
  from update_announcement_check_fails [OF assms(1) True this] show ?thesis .
next
  case False
  have ne: "build_update_data title message expiration_date start_date \<noteq> []"
    using assms(2) by (simp add: build_update_data_Nil)
  have "\<forall>x \<in> set coll. \<not> matches (by_id obj_id) x"
    using assms(3) by (simp only: find_one_None_iff)
  then have "update_one coll (by_id obj_id) (build_update_data title message expiration_date start_date) = (coll, 0)"
    by (rule update_one_none)
  then show ?thesis
    using assms(1) ne False date_supplied_iff [of title message expiration_date start_date]
    by (simp add: update_announcement_def Let_def)
qed

lemma update_announcement_present:
  assumes "ObjectId L announcement_id = Some obj_id"
    and "title \<noteq> None \<or> message \<noteq> None \<or> expiration_date \<noteq> None \<or> start_date \<noteq> None"
    and "start_date \<noteq> None \<or> expiration_date \<noteq> None \<longrightarrow>
         validate_dates L coll obj_id (build_update_data title message expiration_date start_date) = Inr ()"
    and "coll = pre @ d # post"
    and "\<forall>x \<in> set pre. x ''_id'' \<noteq> Some (Oid obj_id)"
    and "d ''_id'' = Some (Oid obj_id)"
  shows "update_announcement L coll announcement_id title message expiration_date start_date =
           (pre @ (d ++ map_of (build_update_data title message expiration_date start_date)) # post,
            Inr ((d ++ map_of (build_update_data title message expiration_date start_date))
                   (''_id'' \<mapsto> Str (py_str L (Oid obj_id)))))"
proof -
  let ?u = "build_update_data title message expiration_date start_date"
  let ?d' = "d ++ map_of ?u"
  have ne: "?u \<noteq> []"
    using assms(2) by (simp add: build_update_data_Nil)
  have pre: "\<forall>x \<in> set pre. \<not> matches (by_id obj_id) x"
    using assms(5) by simp
  have d: "matches (by_id obj_id) d"
    using assms(6) by simp
  have id': "?d' ''_id'' = Some (Oid obj_id)"
    using assms(6) by (simp add: map_add_def)
  then have d': "matches (by_id obj_id) ?d'"
    by simp
  have upd: "update_one coll (by_id obj_id) ?u = (pre @ ?d' # post, 1)"
    unfolding assms(4) using pre d by (rule update_one_at)
  have fnd: "find_one (pre @ ?d' # post) (by_id obj_id) = Some ?d'"
    using pre d' by (rule find_one_at)
  have chk: "(if map_of ?u ''start_date'' \<noteq> None \<or> map_of ?u ''expiration_date'' \<noteq> None
              then validate_dates L coll obj_id ?u else Inr ()) = Inr ()"
    using assms(3) date_supplied_iff [of title message expiration_date start_date] by auto
  show ?thesis
    unfolding update_announcement_def Let_def
    using assms(1) ne
    by (simp only: chk upd fnd id' option.case sum.case prod.case if_False) simp
qed

lemma update_announcement_success:
  assumes "update_announcement L coll announcement_id title message expiration_date start_date = (coll', Inr r)"
  shows "\<exists>obj_id pre d post.
           ObjectId L announcement_id = Some obj_id \<and> coll = pre @ d # post \<and>
           (\<forall>x \<in> set pre. x ''_id'' \<noteq> Some (Oid obj_id)) \<and> d ''_id'' = Some (Oid obj_id) \<and>
           (start_date \<noteq> None \<or> expiration_date \<noteq> None \<longrightarrow>
              validate_dates L coll obj_id (build_update_data title message expiration_date start_date) = Inr ()) \<and>
           coll' = pre @ (d ++ map_of (build_update_data title message expiration_date start_date)) # post \<and>
           r = (d ++ map_of (build_update_data title message expiration_date start_date))
                 (''_id'' \<mapsto> Str (py_str L (Oid obj_id)))"
proof -
  let ?u = "build_update_data title message expiration_date start_date"
  obtain obj_id where oid: "ObjectId L announcement_id = Some obj_id"
    using assms by (cases "ObjectId L announcement_id") (simp_all add: update_announcement_def)
  have some: "title \<noteq> None \<or> message \<noteq> None \<or> expiration_date \<noteq> None \<or> start_date \<noteq> None"
  proof (rule ccontr)
    assume "\<not> ?thesis"
    then have "title = None" "message = None" "expiration_date = None" "start_date = None" by simp_all
    with update_announcement_no_fields [OF oid, of coll] assms show False by simp
  qed
  have chk: "start_date \<noteq> None \<or> expiration_date \<noteq> None \<longrightarrow> validate_dates L coll obj_id ?u = Inr ()"
  proof
    assume dates: "start_date \<noteq> None \<or> expiration_date \<noteq> None"
    show "validate_dates L coll obj_id ?u = Inr ()"
    proof (cases "validate_dates L coll obj_id ?u")
      case (Inl e)
      from update_announcement_check_fails [OF oid dates Inl] assms show ?thesis by simp
    next
      case (Inr u)
      then show ?thesis by simp
    qed
  qed
  obtain d where fnd: "find_one coll (by_id obj_id) = Some d"
  proof (cases "find_one coll (by_id obj_id)")
    case None
    from update_announcement_absent [OF oid some None] assms show ?thesis by simp
  next
    case (Some d)
    then show ?thesis using that by simp
  qed
  from find_one_split [OF fnd] obtain pre post where
    split: "coll = pre @ d # post" "\<forall>x \<in> set pre. \<not> matches (by_id obj_id) x" "matches (by_id obj_id) d"
    by blast
  from split have pre: "\<forall>x \<in> set pre. x ''_id'' \<noteq> Some (Oid obj_id)" and d: "d ''_id'' = Some (Oid obj_id)"
    by simp_all
  from update_announcement_present [OF oid some chk split(1) pre d] assms
  have "coll' = pre @ (d ++ map_of ?u) # post"
    and "r = (d ++ map_of ?u)(''_id'' \<mapsto> Str (py_str L (Oid obj_id)))"
    by simp_all
  with oid split(1) pre d chk show ?thesis by blast
qed

lemma update_announcement_cases:
  "(\<exists>e. update_announcement L coll announcement_id title message expiration_date start_date = (coll, Inl e)) \<or>
   (\<exists>coll' r. update_announcement L coll announcement_id title message expiration_date start_date = (coll', Inr r))"
proof (cases "ObjectId L announcement_id")
  case None
  then show ?thesis by (simp add: update_announcement_invalid_id)
next
  case (Some obj_id)
  let ?u = "build_update_data title message expiration_date start_date"
  show ?thesis
  proof (cases "title \<noteq> None \<or> message \<noteq> None \<or> expiration_date \<noteq> None \<or> start_date \<noteq> None")
    case False
    with Some show ?thesis by (simp add: update_announcement_no_fields)
  next
    case some: True
    show ?thesis
    proof (cases "find_one coll (by_id obj_id)")
      case None
      from update_announcement_absent [OF Some some None] show ?thesis by simp
    next
      case found: (Some d)
      from find_one_split [OF found] obtain pre post where
        split: "coll = pre @ d # post" "\<forall>x \<in> set pre. \<not> matches (by_id obj_id) x" "matches (by_id obj_id) d"
        by blast
      then have pre: "\<forall>x \<in> set pre. x ''_id'' \<noteq> Some (Oid obj_id)" and d: "d ''_id'' = Some (Oid obj_id)"
        by simp_all
      show ?thesis
      proof (cases "start_date \<noteq> None \<or> expiration_date \<noteq> None")
        case False
        then have "start_date \<noteq> None \<or> expiration_date \<noteq> None \<longrightarrow> validate_dates L coll obj_id ?u = Inr ()"
          by simp
        from update_announcement_present [OF Some some this split(1) pre d] show ?thesis by simp
      next
        case dates: True
        show ?thesis
        proof (cases "validate_dates L coll obj_id ?u")
          case (Inl e)
          from update_announcement_check_fails [OF Some dates Inl] show ?thesis by simp
        next
          case (Inr u)
          then have "start_date \<noteq> None \<or> expiration_date \<noteq> None \<longrightarrow> validate_dates L coll obj_id ?u = Inr ()"
            by simp
          from update_announcement_present [OF Some some this split(1) pre d] show ?thesis by simp
        qed
      qed
    qed
  qed
qed

section \<open>The invariant of the store\<close>

text \<open>
  Every handler keeps identifiers distinct and dates ordered, whether it succeeds or
  fails; so both hold in every reachable collection.
\<close>

lemma create_announcement_invariant:
  assumes "store_invariant L coll"
  shows "store_invariant L (fst (create_announcement L now created fresh coll title message expiration_date start_date))"
proof -
  from create_announcement_fst [of L now created fresh coll title message expiration_date start_date]
  show ?thesis
  proof
    assume "fst (create_announcement L now created fresh coll title message expiration_date start_date) = coll"
    with assms show ?thesis by simp
  next
    assume "\<exists>d. fst (create_announcement L now created fresh coll title message expiration_date start_date) = coll @ [d] \<and>
        d ''_id'' = Some (Oid fresh) \<and> (\<forall>x \<in> set coll. x ''_id'' \<noteq> Some (Oid fresh)) \<and>
        dates_ordered L d"
    then obtain d where
      "fst (create_announcement L now created fresh coll title message expiration_date start_date) = coll @ [d]"
      "d ''_id'' = Some (Oid fresh)" "\<forall>x \<in> set coll. x ''_id'' \<noteq> Some (Oid fresh)" "dates_ordered L d"
      by blast
    with assms show ?thesis
      by (auto simp: store_invariant_def distinct_ids_def)
  qed
qed

lemma update_announcement_invariant:
  assumes "store_invariant L coll"
  shows "store_invariant L (fst (update_announcement L coll announcement_id title message expiration_date start_date))"
proof -
  let ?call = "update_announcement L coll announcement_id title message expiration_date start_date"
  let ?u = "build_update_data title message expiration_date start_date"
  from update_announcement_cases [of L coll announcement_id title message expiration_date start_date]
  show ?thesis
  proof
    assume "\<exists>e. ?call = (coll, Inl e)"
    with assms show ?thesis by auto
  next
    assume "\<exists>coll' r. ?call = (coll', Inr r)"
    then obtain coll' r where call: "?call = (coll', Inr r)" by blast
    from update_announcement_success [OF call] obtain obj_id pre d post where
      oid: "ObjectId L announcement_id = Some obj_id"
      and coll: "coll = pre @ d # post"
      and pre: "\<forall>x \<in> set pre. x ''_id'' \<noteq> Some (Oid obj_id)"
      and d: "d ''_id'' = Some (Oid obj_id)"
      and chk: "start_date \<noteq> None \<or> expiration_date \<noteq> None \<longrightarrow> validate_dates L coll obj_id ?u = Inr ()"
      and coll': "coll' = pre @ (d ++ map_of ?u) # post"
      by blast
    let ?d' = "d ++ map_of ?u"
    have id': "?d' ''_id'' = d ''_id''"
      by (simp add: map_add_def)
    have ord: "dates_ordered L ?d'"
    proof (cases "start_date \<noteq> None \<or> expiration_date \<noteq> None")
      case True
      with chk have v: "validate_dates L coll obj_id ?u = Inr ()" by blast
      have fnd: "find_one coll (by_id obj_id) = Some d"
        unfolding coll using pre d by (intro find_one_at) simp_all
      from validate_dates_ok [OF v fnd] obtain s e start_dt expiry_dt where
        m: "merged start_date d ''start_date'' = Str s" "merged expiration_date d ''expiration_date'' = Str e"
        and p: "fromisoformat L s = Some start_dt" "fromisoformat L e = Some expiry_dt"
               "later_than expiry_dt start_dt"
        by blast
      show ?thesis
        using merged_stored(1) [OF m(1)] merged_stored(2) [OF m(2)] p by (rule dates_orderedI)
    next
      case False
      then have "?d' ''start_date'' = d ''start_date''" "?d' ''expiration_date'' = d ''expiration_date''"
        by (simp_all add: map_add_def map_of_build_update_data)
      then have "dates_ordered L ?d' = dates_ordered L d"
        by (rule dates_ordered_cong)
      with assms coll show ?thesis by (simp add: store_invariant_def)
    qed
    have "store_invariant L coll'"
      using assms ord id' unfolding coll coll' store_invariant_def distinct_ids_def
      by auto
    with call show ?thesis by simp
  qed
qed

lemma delete_announcement_invariant:
  assumes "store_invariant L coll"
  shows "store_invariant L (fst (delete_announcement L coll announcement_id))"
proof (cases "ObjectId L announcement_id")
  case None
  with assms show ?thesis by (simp add: delete_announcement_def)
next
  case (Some obj_id)
  have "fst (delete_announcement L coll announcement_id) = fst (delete_one coll (by_id obj_id))"
    using Some by (simp add: delete_announcement_def split: prod.splits)
  with assms delete_one_sublist [of "\<lambda>d. d ''_id''" coll "by_id obj_id"]
  show ?thesis
    by (auto simp: store_invariant_def distinct_ids_def)
qed

lemma reachable_invariant: "reachable L coll \<Longrightarrow> store_invariant L coll"
proof (induction rule: reachable.induct)
  case initial
  show ?case by (simp add: store_invariant_def distinct_ids_def)
next
  case (create coll now created fresh title message expiration_date start_date)
  then show ?case by (intro create_announcement_invariant)
next
  case (update coll announcement_id title message expiration_date start_date)
  then show ?case by (intro update_announcement_invariant)
next
  case (delete coll announcement_id)
  then show ?case by (intro delete_announcement_invariant)
qed

section \<open>Evaluating the library instance\<close>

text \<open>
  Values of the library instance on the strings of the concrete calls.
\<close>

lemma lib_simps [simp]:
  "fromisoformat lib = fromisoformat_seconds" "ObjectId lib = ObjectId_hex" "py_str lib = str_value"
  by (simp_all add: lib_def)

lemmas fromisoformat_seconds_eval =
  fromisoformat_seconds_def decimal_def ordinal_def days_in_month_def month_lengths_def is_leap_def

lemma fromisoformat_seconds_values [simp]:
  "fromisoformat_seconds ''2024-01-01T00:00:00'' = Some (Naive 63839664000000000)"
  "fromisoformat_seconds ''2099-01-01T00:00:00'' = Some (Naive 66206505600000000)"
  "fromisoformat_seconds ''2024-06-01T00:00:00'' = Some (Naive 63852796800000000)"
  "fromisoformat_seconds ''2023-01-01T00:00:00'' = Some (Naive 63808128000000000)"
  "fromisoformat_seconds ''2100-01-01T00:00:00'' = Some (Naive 66238041600000000)"
  "fromisoformat_seconds ''2024-03-01T12:00:00'' = Some (Naive 63844891200000000)"
  "fromisoformat_seconds ''2024-03-01 23:00:00'' = Some (Naive 63844930800000000)"
  "fromisoformat_seconds [] = None"
  "fromisoformat_seconds ''next week'' = None"
  by (simp_all add: fromisoformat_seconds_eval)

lemma ObjectId_hex_values [simp]:
  "ObjectId_hex exam_id = Some exam_oid"
  "ObjectId_hex legacy_id = Some legacy_oid"
  "ObjectId_hex inverted_id = Some inverted_oid"
  "ObjectId_hex concert_id = Some concert_oid"
  "ObjectId_hex play_id = Some play_oid"
  "ObjectId_hex ''42'' = None"
  by (simp_all add: ObjectId_hex_def hex_digit_def exam_id_def exam_oid_def legacy_id_def legacy_oid_def
        inverted_id_def inverted_oid_def concert_id_def concert_oid_def play_id_def play_oid_def)

lemma hex_string_numeral:
  "hex_string (numeral k) v = hex_string (pred_numeral k) (v div 16) @ [''0123456789abcdef'' ! (v mod 16)]"
proof -
  have "hex_string (numeral k) v = hex_string (Suc (pred_numeral k)) v"
    by (simp only: numeral_eq_Suc)
  then show ?thesis by (simp only: hex_string.simps)
qed

lemma hex_string_values [simp]:
  "hex_string 24 exam_oid = exam_id"
  "hex_string 24 legacy_oid = legacy_id"
  "hex_string 24 inverted_oid = inverted_id"
  "hex_string 24 concert_oid = concert_id"
  "hex_string 24 play_oid = play_id"
  by (simp_all add: hex_string_numeral exam_id_def exam_oid_def legacy_id_def legacy_oid_def
        inverted_id_def inverted_oid_def concert_id_def concert_oid_def play_id_def play_oid_def)

lemma oid_distinct [simp]:
  "exam_oid \<noteq> legacy_oid" "exam_oid \<noteq> inverted_oid" "legacy_oid \<noteq> inverted_oid"
  "legacy_oid \<noteq> exam_oid" "inverted_oid \<noteq> exam_oid" "inverted_oid \<noteq> legacy_oid"
  by (simp_all add: exam_oid_def legacy_oid_def inverted_oid_def)

lemmas update_announcement_eval =
  update_announcement_def build_update_data_def validate_dates_def get_default_def py_get_def
  parse_dates_def py_fromisoformat_def Let_def

section \<open>The claims\<close>

text \<open>
  Claim C1. After every successful create, and after every successful update that
  supplies \<^verbatim>\<open>start_date\<close> or \<^verbatim>\<open>expiration_date\<close>, the dates of the record parse and
  the expiration date is later than the start date. This holds of the returned record
  and of the record as it is stored: the one create appends, the one update leaves under
  the identifier. The collection before the call is arbitrary. Hence every record of
  every collection the handlers produce from the empty one has its dates in order.
\<close>

theorem dates_ordered_after_create_and_update:
  "(create_announcement L now created fresh coll title message expiration_date start_date = (coll', Inr r) \<longrightarrow>
      dates_ordered L r \<and> (\<exists>d. coll' = coll @ [d] \<and> dates_ordered L d))
   \<and>
   ((new_start \<noteq> None \<or> new_expiration \<noteq> None) \<and>
    update_announcement L store announcement_id new_title new_message new_expiration new_start = (store', Inr updated) \<longrightarrow>
      dates_ordered L updated \<and>
      (\<exists>obj_id d. ObjectId L announcement_id = Some obj_id \<and>
                  find_one store' (by_id obj_id) = Some d \<and> dates_ordered L d))
   \<and>
   (reachable L db \<longrightarrow> (\<forall>d \<in> set db. dates_ordered L d))"
proof (intro conjI impI)
  assume c: "create_announcement L now created fresh coll title message expiration_date start_date = (coll', Inr r)"
  let ?d = "[''title'' \<mapsto> Str title, ''message'' \<mapsto> Str message,
             ''start_date'' \<mapsto> Str (effective_start now start_date),
             ''expiration_date'' \<mapsto> Str expiration_date, ''created_at'' \<mapsto> Str created]"
  from c obtain start_dt expiry_dt where
    p: "fromisoformat L (effective_start now start_date) = Some start_dt"
       "fromisoformat L expiration_date = Some expiry_dt" "later_than expiry_dt start_dt"
    and res: "coll' = coll @ [?d(''_id'' \<mapsto> Oid fresh)]" "r = ?d(''_id'' \<mapsto> Str (py_str L (Oid fresh)))"
    unfolding create_announcement_unfold by (auto split: option.splits if_splits)
  have "dates_ordered L ?d"
    using p by (simp add: dates_ordered_def)
  then have "dates_ordered L (?d(''_id'' \<mapsto> Oid fresh))" "dates_ordered L (?d(''_id'' \<mapsto> Str (py_str L (Oid fresh))))"
    by (simp_all only: dates_ordered_stringify)
  with res show "dates_ordered L r" "\<exists>d. coll' = coll @ [d] \<and> dates_ordered L d"
    by simp_all
next
  assume a: "(new_start \<noteq> None \<or> new_expiration \<noteq> None) \<and>
    update_announcement L store announcement_id new_title new_message new_expiration new_start = (store', Inr updated)"
  let ?u = "build_update_data new_title new_message new_expiration new_start"
  from a update_announcement_success [of L store announcement_id new_title new_message new_expiration new_start store' updated]
  obtain obj_id pre d post where
    oid: "ObjectId L announcement_id = Some obj_id"
    and coll: "store = pre @ d # post"
    and pre: "\<forall>x \<in> set pre. x ''_id'' \<noteq> Some (Oid obj_id)"
    and d: "d ''_id'' = Some (Oid obj_id)"
    and chk: "validate_dates L store obj_id ?u = Inr ()"
    and coll': "store' = pre @ (d ++ map_of ?u) # post"
    and r: "updated = (d ++ map_of ?u)(''_id'' \<mapsto> Str (py_str L (Oid obj_id)))"
    by blast
  have fnd: "find_one store (by_id obj_id) = Some d"
    unfolding coll using pre d by (intro find_one_at) simp_all
  from validate_dates_ok [OF chk fnd] obtain s e start_dt expiry_dt where
    m: "merged new_start d ''start_date'' = Str s" "merged new_expiration d ''expiration_date'' = Str e"
    and p: "fromisoformat L s = Some start_dt" "fromisoformat L e = Some expiry_dt"
           "later_than expiry_dt start_dt"
    by blast
  have ord: "dates_ordered L (d ++ map_of ?u)"
    using merged_stored(1) [OF m(1)] merged_stored(2) [OF m(2)] p by (rule dates_orderedI)
  have "(d ++ map_of ?u) ''_id'' = Some (Oid obj_id)"
    using d by (simp add: map_add_def)
  then have "find_one store' (by_id obj_id) = Some (d ++ map_of ?u)"
    unfolding coll' using pre by (intro find_one_at) simp_all
  with oid ord show "\<exists>obj_id d. ObjectId L announcement_id = Some obj_id \<and>
                  find_one store' (by_id obj_id) = Some d \<and> dates_ordered L d"
    by blast
  from ord show "dates_ordered L updated"
    unfolding r by (simp only: dates_ordered_stringify)
next
  assume "reachable L db"
  then have "store_invariant L db"
    by (rule reachable_invariant)
  then show "\<forall>d \<in> set db. dates_ordered L d"
    by (simp add: store_invariant_def)
qed

text \<open>
  The scenario of the specification: the \<open>exam\<close> record is created with both dates
  in the empty collection, then its expiration date is moved to 2100.
\<close>

theorem dates_ordered_after_create_and_update_witness:
  "create_announcement lib ''2023-12-01T09:30:00'' ''2023-12-01T09:30:00'' exam_oid [] ''Exam'' ''Finals week''
     ''2099-01-01T00:00:00'' (Some ''2024-01-01T00:00:00'') = ([exam], Inr (exam(''_id'' \<mapsto> Str exam_id)))
   \<and> dates_ordered lib (exam(''_id'' \<mapsto> Str exam_id))
   \<and> update_announcement lib [exam] exam_id None None (Some ''2100-01-01T00:00:00'') None =
       ([exam(''expiration_date'' \<mapsto> Str ''2100-01-01T00:00:00'')],
        Inr (exam(''expiration_date'' \<mapsto> Str ''2100-01-01T00:00:00'', ''_id'' \<mapsto> Str exam_id)))
   \<and> dates_ordered lib (exam(''expiration_date'' \<mapsto> Str ''2100-01-01T00:00:00'', ''_id'' \<mapsto> Str exam_id))
   \<and> reachable lib [exam] \<and> dates_ordered lib exam"
proof -
  have c: "create_announcement lib ''2023-12-01T09:30:00'' ''2023-12-01T09:30:00'' exam_oid [] ''Exam'' ''Finals week''
     ''2099-01-01T00:00:00'' (Some ''2024-01-01T00:00:00'') = ([exam], Inr (exam(''_id'' \<mapsto> Str exam_id)))"
    by (simp add: create_announcement_unfold effective_start_def exam_def)
  have u: "update_announcement lib [exam] exam_id None None (Some ''2100-01-01T00:00:00'') None =
       ([exam(''expiration_date'' \<mapsto> Str ''2100-01-01T00:00:00'')],
        Inr (exam(''expiration_date'' \<mapsto> Str ''2100-01-01T00:00:00'', ''_id'' \<mapsto> Str exam_id)))"
    by (simp add: update_announcement_eval exam_def)
  have "reachable lib (fst (create_announcement lib ''2023-12-01T09:30:00'' ''2023-12-01T09:30:00'' exam_oid []
     ''Exam'' ''Finals week'' ''2099-01-01T00:00:00'' (Some ''2024-01-01T00:00:00'')))"
    using reachable.initial by (rule reachable.create)
  then have r: "reachable lib [exam]"
    by (simp only: c fst_conv)
  show ?thesis
    using c u r
      dates_ordered_after_create_and_update [where L = lib and now = "''2023-12-01T09:30:00''"
        and created = "''2023-12-01T09:30:00''" and fresh = exam_oid and coll = "[]" and title = "''Exam''"
        and message = "''Finals week''" and expiration_date = "''2099-01-01T00:00:00''"
        and start_date = "Some ''2024-01-01T00:00:00''" and coll' = "[exam]"
        and r = "exam(''_id'' \<mapsto> Str exam_id)"
        and store = "[exam]" and announcement_id = exam_id and new_title = None and new_message = None
        and new_expiration = "Some ''2100-01-01T00:00:00''" and new_start = None
        and store' = "[exam(''expiration_date'' \<mapsto> Str ''2100-01-01T00:00:00'')]"
        and updated = "exam(''expiration_date'' \<mapsto> Str ''2100-01-01T00:00:00'', ''_id'' \<mapsto> Str exam_id)"
        and db = "[exam]"]
    by simp
qed

text \<open>
  Claim C2, as stated, fails: the empty string is no ISO-8601 timestamp, and a create
  call whose \<^verbatim>\<open>start_date\<close> is the empty string succeeds and stores a record. Line 72
  (\<^verbatim>\<open>if not start_date\<close>) replaces the empty string by the clock reading before anything
  is parsed.
\<close>

theorem create_empty_start_date_counterexample:
  "fromisoformat lib [] = None \<and>
   create_announcement lib ''2024-01-01T00:00:00'' ''2024-01-01T00:00:01'' exam_oid []
     ''Exam'' ''Finals week'' ''2099-01-01T00:00:00'' (Some []) =
     ([exam(''created_at'' \<mapsto> Str ''2024-01-01T00:00:01'')],
      Inr (exam(''created_at'' \<mapsto> Str ''2024-01-01T00:00:01'', ''_id'' \<mapsto> Str exam_id)))"
  by (simp add: create_announcement_unfold effective_start_def exam_def fun_upd_twist)

text \<open>
  Claim C2, amended. The start date create works with is the supplied one when it is a
  non-empty string and the clock reading otherwise. When that date or the expiration
  date does not parse, or the parsed expiration date is not later than the parsed start
  date, create ends in an \<^verbatim>\<open>HTTPException\<close> with status 400 and the collection is the
  one before the call.
\<close>

theorem create_rejects_invalid_dates:
  assumes "fromisoformat L (effective_start now start_date) = None \<or>
           fromisoformat L expiration_date = None \<or>
           (\<exists>start_dt expiry_dt.
              fromisoformat L (effective_start now start_date) = Some start_dt \<and>
              fromisoformat L expiration_date = Some expiry_dt \<and>
              not_later_than expiry_dt start_dt)"
  shows "create_announcement L now created fresh coll title message expiration_date start_date =
           (coll, Inl (HTTPException 400 ''Invalid date format'')) \<or>
         create_announcement L now created fresh coll title message expiration_date start_date =
           (coll, Inl (HTTPException 400 ''Expiration date must be after start date''))"
  using assms unfolding create_announcement_unfold
  by (auto split: option.splits)

text \<open>
  An unparsable start date, and the second call of the specification's scenario (the
  expiration date five months before the start date).
\<close>

theorem create_rejects_invalid_dates_witness:
  "fromisoformat lib (effective_start ''2024-01-01T00:00:00'' (Some ''next week'')) = None \<and>
   create_announcement lib ''2024-01-01T00:00:00'' ''2024-01-01T00:00:01'' exam_oid [exam]
     ''Trip'' ''Museum'' ''2099-01-01T00:00:00'' (Some ''next week'') =
     ([exam], Inl (HTTPException 400 ''Invalid date format'')) \<and>
   fromisoformat lib (effective_start ''2024-01-01T00:00:00'' (Some ''2024-06-01T00:00:00'')) =
     Some (Naive 63852796800000000) \<and>
   fromisoformat lib ''2024-01-01T00:00:00'' = Some (Naive 63839664000000000) \<and>
   not_later_than (Naive 63839664000000000) (Naive 63852796800000000) \<and>
   create_announcement lib ''2024-01-01T00:00:00'' ''2024-01-01T00:00:01'' exam_oid [exam]
     ''Trip'' ''Museum'' ''2024-01-01T00:00:00'' (Some ''2024-06-01T00:00:00'') =
     ([exam], Inl (HTTPException 400 ''Expiration date must be after start date''))"
  using
    create_rejects_invalid_dates [where L = lib and now = "''2024-01-01T00:00:00''"
      and start_date = "Some ''next week''" and expiration_date = "''2099-01-01T00:00:00''"
      and created = "''2024-01-01T00:00:01''" and fresh = exam_oid and coll = "[exam]"
      and title = "''Trip''" and message = "''Museum''"]
    create_rejects_invalid_dates [where L = lib and now = "''2024-01-01T00:00:00''"
      and start_date = "Some ''2024-06-01T00:00:00''" and expiration_date = "''2024-01-01T00:00:00''"
      and created = "''2024-01-01T00:00:01''" and fresh = exam_oid and coll = "[exam]"
      and title = "''Trip''" and message = "''Museum''"]
  by (simp add: effective_start_def create_announcement_unfold)







text \<open>
  Claim C5. A successful update replaces one document of the collection, the first one
  with the identifier, and leaves every other document in place. In the new document
  each of the four fields the call supplies has the supplied value, each of the four it
  does not supply has its old value, and every other field (\<^verbatim>\<open>_id\<close>, \<^verbatim>\<open>created_at\<close>, any
  field at all) has its old value. The returned record is the new document with its
  \<^verbatim>\<open>_id\<close> rendered as a string.
\<close>

theorem update_changes_only_supplied_fields:
  assumes "update_announcement L coll announcement_id title message expiration_date start_date = (coll', Inr r)"
  shows "\<exists>obj_id pre d post d'.
           ObjectId L announcement_id = Some obj_id \<and>
           coll = pre @ d # post \<and> find_one coll (by_id obj_id) = Some d \<and>
           coll' = pre @ d' # post \<and> find_one coll' (by_id obj_id) = Some d' \<and>
           d' ''title'' = (case title of None \<Rightarrow> d ''title'' | Some t \<Rightarrow> Some (Str t)) \<and>
           d' ''message'' = (case message of None \<Rightarrow> d ''message'' | Some m \<Rightarrow> Some (Str m)) \<and>
           d' ''expiration_date'' =
             (case expiration_date of None \<Rightarrow> d ''expiration_date'' | Some e \<Rightarrow> Some (Str e)) \<and>
           d' ''start_date'' = (case start_date of None \<Rightarrow> d ''start_date'' | Some s \<Rightarrow> Some (Str s)) \<and>
           (\<forall>k. k \<notin> {''title'', ''message'', ''expiration_date'', ''start_date''} \<longrightarrow> d' k = d k) \<and>
           r = d'(''_id'' \<mapsto> Str (py_str L (Oid obj_id)))"
proof -
  let ?u = "build_update_data title message expiration_date start_date"
  from update_announcement_success [OF assms] obtain obj_id pre d post where
    oid: "ObjectId L announcement_id = Some obj_id"
    and coll: "coll = pre @ d # post"
    and pre: "\<forall>x \<in> set pre. x ''_id'' \<noteq> Some (Oid obj_id)"
    and d: "d ''_id'' = Some (Oid obj_id)"
    and coll': "coll' = pre @ (d ++ map_of ?u) # post"
    and r: "r = (d ++ map_of ?u)(''_id'' \<mapsto> Str (py_str L (Oid obj_id)))"
    by blast
  let ?d' = "d ++ map_of ?u"
  have pre': "\<forall>x \<in> set pre. \<not> matches (by_id obj_id) x"
    using pre by simp
  have fnd: "find_one coll (by_id obj_id) = Some d"
    unfolding coll using pre' d by (intro find_one_at) simp_all
  have "?d' ''_id'' = Some (Oid obj_id)"
    using d by (simp add: map_add_def)
  then have fnd': "find_one coll' (by_id obj_id) = Some ?d'"
    unfolding coll' using pre' by (intro find_one_at) simp_all
  have t: "?d' ''title'' = (case title of None \<Rightarrow> d ''title'' | Some t \<Rightarrow> Some (Str t))"
    by (simp add: map_add_def map_of_build_update_data split: option.splits)
  have m: "?d' ''message'' = (case message of None \<Rightarrow> d ''message'' | Some m \<Rightarrow> Some (Str m))"
    by (simp add: map_add_def map_of_build_update_data split: option.splits)
  have e: "?d' ''expiration_date'' =
             (case expiration_date of None \<Rightarrow> d ''expiration_date'' | Some e \<Rightarrow> Some (Str e))"
    by (simp add: map_add_def map_of_build_update_data split: option.splits)
  have s: "?d' ''start_date'' = (case start_date of None \<Rightarrow> d ''start_date'' | Some s \<Rightarrow> Some (Str s))"
    by (simp add: map_add_def map_of_build_update_data split: option.splits)
  have frame: "\<forall>k. k \<notin> {''title'', ''message'', ''expiration_date'', ''start_date''} \<longrightarrow> ?d' k = d k"
    by (simp add: map_add_def map_of_build_update_data)
  from oid coll fnd coll' fnd' t m e s frame r show ?thesis
    by blast
qed

text \<open>
  Renaming the \<open>legacy\<close> record.
\<close>

theorem update_changes_only_supplied_fields_witness:
  "update_announcement lib [exam, legacy] legacy_id (Some ''Welcome back'') None None None =
     ([exam, legacy(''title'' \<mapsto> Str ''Welcome back'')],
      Inr (legacy(''title'' \<mapsto> Str ''Welcome back'', ''_id'' \<mapsto> Str legacy_id))) \<and>
   (\<exists>obj_id pre d post d'.
      ObjectId lib legacy_id = Some obj_id \<and>
      [exam, legacy] = pre @ d # post \<and> find_one [exam, legacy] (by_id obj_id) = Some d \<and>
      [exam, legacy(''title'' \<mapsto> Str ''Welcome back'')] = pre @ d' # post \<and>
      find_one [exam, legacy(''title'' \<mapsto> Str ''Welcome back'')] (by_id obj_id) = Some d' \<and>
      d' ''title'' = Some (Str ''Welcome back'') \<and>
      d' ''message'' = d ''message'' \<and>
      d' ''expiration_date'' = d ''expiration_date'' \<and>
      d' ''start_date'' = d ''start_date'' \<and>
      (\<forall>k. k \<notin> {''title'', ''message'', ''expiration_date'', ''start_date''} \<longrightarrow> d' k = d k) \<and>
      legacy(''title'' \<mapsto> Str ''Welcome back'', ''_id'' \<mapsto> Str legacy_id) =
        d'(''_id'' \<mapsto> Str (py_str lib (Oid obj_id))))"
proof -
  have u: "update_announcement lib [exam, legacy] legacy_id (Some ''Welcome back'') None None None =
     ([exam, legacy(''title'' \<mapsto> Str ''Welcome back'')],
      Inr (legacy(''title'' \<mapsto> Str ''Welcome back'', ''_id'' \<mapsto> Str legacy_id)))"
    by (simp add: update_announcement_eval exam_def legacy_def)
  from update_changes_only_supplied_fields [OF u] u show ?thesis
    by simp
qed

text \<open>
  Claim C6, as stated, fails: an update with a well-formed identifier that matches no
  record, and with no field supplied, ends in status 400, not 404. The check of line 128
  comes before the first access to the store.
\<close>

theorem update_no_fields_absent_record_counterexample:
  "ObjectId lib exam_id = Some exam_oid \<and>
   find_one [legacy] (by_id exam_oid) = None \<and>
   update_announcement lib [legacy] exam_id None None None None =
     ([legacy], Inl (HTTPException 400 ''No fields to update'')) \<and>
   snd (update_announcement lib [legacy] exam_id None None None None) \<noteq>
     Inl (HTTPException 404 ''Announcement not found'')"
  by (simp add: update_announcement_eval legacy_def)

text \<open>
  Claim C6, amended. A malformed identifier gives status 400. A call that supplies no
  field gives status 400, whether the identifier is malformed or not and whether a
  record matches or not. A well-formed identifier that matches no record gives status
  404 when at least one field is supplied. In these three cases the collection is
  unchanged, and no call ends in both a 400 and a 404.
\<close>

theorem update_error_outcomes:
  "(ObjectId L malformed = None \<longrightarrow>
      update_announcement L coll malformed title message expiration_date start_date =
        (coll, Inl (HTTPException 400 ''Invalid announcement ID'')))
   \<and>
   (update_announcement L store any_id None None None None =
      (store, Inl (HTTPException 400 ''Invalid announcement ID'')) \<or>
    update_announcement L store any_id None None None None =
      (store, Inl (HTTPException 400 ''No fields to update'')))
   \<and>
   (ObjectId L absent_id = Some obj_id \<and> find_one db (by_id obj_id) = None \<and>
    (new_title \<noteq> None \<or> new_message \<noteq> None \<or> new_expiration \<noteq> None \<or> new_start \<noteq> None) \<longrightarrow>
      update_announcement L db absent_id new_title new_message new_expiration new_start =
        (db, Inl (HTTPException 404 ''Announcement not found'')))
   \<and>
   \<not> (\<exists>detail detail'.
        snd (update_announcement L coll malformed title message expiration_date start_date) =
          Inl (HTTPException 400 detail) \<and>
        snd (update_announcement L coll malformed title message expiration_date start_date) =
          Inl (HTTPException 404 detail'))"
proof (intro conjI impI)
  assume "ObjectId L malformed = None"
  then show "update_announcement L coll malformed title message expiration_date start_date =
        (coll, Inl (HTTPException 400 ''Invalid announcement ID''))"
    by (rule update_announcement_invalid_id)
next
  show "update_announcement L store any_id None None None None =
      (store, Inl (HTTPException 400 ''Invalid announcement ID'')) \<or>
    update_announcement L store any_id None None None None =
      (store, Inl (HTTPException 400 ''No fields to update''))"
  proof (cases "ObjectId L any_id")
    case None
    then show ?thesis by (simp add: update_announcement_invalid_id)
  next
    case (Some i)
    then show ?thesis by (simp add: update_announcement_no_fields)
  qed
next
  assume a: "ObjectId L absent_id = Some obj_id \<and> find_one db (by_id obj_id) = None \<and>
    (new_title \<noteq> None \<or> new_message \<noteq> None \<or> new_expiration \<noteq> None \<or> new_start \<noteq> None)"
  then have "ObjectId L absent_id = Some obj_id" "find_one db (by_id obj_id) = None"
    "new_title \<noteq> None \<or> new_message \<noteq> None \<or> new_expiration \<noteq> None \<or> new_start \<noteq> None"
    by blast+
  then show "update_announcement L db absent_id new_title new_message new_expiration new_start =
        (db, Inl (HTTPException 404 ''Announcement not found''))"
    by (intro update_announcement_absent)
next
  show "\<not> (\<exists>detail detail'.
        snd (update_announcement L coll malformed title message expiration_date start_date) =
          Inl (HTTPException 400 detail) \<and>
        snd (update_announcement L coll malformed title message expiration_date start_date) =
          Inl (HTTPException 404 detail'))"
    by auto
qed

text \<open>
  One call for each of the three error outcomes.
\<close>

theorem update_error_outcomes_witness:
  "ObjectId lib ''42'' = None \<and>
   update_announcement lib [exam] ''42'' (Some ''Quiz'') None None None =
     ([exam], Inl (HTTPException 400 ''Invalid announcement ID'')) \<and>
   update_announcement lib [exam] exam_id None None None None =
     ([exam], Inl (HTTPException 400 ''No fields to update'')) \<and>
   ObjectId lib legacy_id = Some legacy_oid \<and> find_one [exam] (by_id legacy_oid) = None \<and>
   update_announcement lib [exam] legacy_id (Some ''Quiz'') None None None =
     ([exam], Inl (HTTPException 404 ''Announcement not found''))"
proof -
  have n: "update_announcement lib [exam] exam_id None None None None \<noteq>
     ([exam], Inl (HTTPException 400 ''Invalid announcement ID''))"
    by (simp add: update_announcement_eval)
  have f: "find_one [exam] (by_id legacy_oid) = None"
    by (simp add: exam_def)
  show ?thesis
    using n f
      update_error_outcomes [where L = lib and malformed = "''42''" and coll = "[exam]"
        and title = "Some ''Quiz''" and message = None and expiration_date = None and start_date = None
        and store = "[exam]" and any_id = exam_id
        and absent_id = legacy_id and obj_id = legacy_oid and db = "[exam]"
        and new_title = "Some ''Quiz''" and new_message = None and new_expiration = None and new_start = None]
    by simp
qed

text \<open>
  Claim C7. On an existing record, an update that supplies neither date succeeds
  whatever the stored dates are. An update that supplies a date is decided by the
  supplied values laid over the stored ones: when these are strings, it ends in status
  400 if one does not parse, in status 400 if the parsed expiration date is not later
  than the parsed start date, and it succeeds if it is later (a naive and an aware
  timestamp cannot be compared, and Python's \<^verbatim>\<open>TypeError\<close> escapes).
\<close>

theorem update_validates_dates_iff_supplied:
  "(ObjectId L announcement_id = Some obj_id \<and> find_one coll (by_id obj_id) = Some d \<and>
    (title \<noteq> None \<or> message \<noteq> None) \<longrightarrow>
      (\<exists>coll' r. update_announcement L coll announcement_id title message None None = (coll', Inr r)))
   \<and>
   (ObjectId L target_id = Some target \<and> find_one store (by_id target) = Some stored \<and>
    (new_start \<noteq> None \<or> new_expiration \<noteq> None) \<and>
    merged new_start stored ''start_date'' = Str s \<and>
    merged new_expiration stored ''expiration_date'' = Str e \<longrightarrow>
      (case (fromisoformat L s, fromisoformat L e) of
         (Some start_dt, Some expiry_dt) \<Rightarrow>
           if not_later_than expiry_dt start_dt
           then update_announcement L store target_id new_title new_message new_expiration new_start =
                  (store, Inl (HTTPException 400 ''Expiration date must be after start date''))
           else if later_than expiry_dt start_dt
           then (\<exists>store' r. update_announcement L store target_id new_title new_message new_expiration new_start =
                  (store', Inr r))
           else update_announcement L store target_id new_title new_message new_expiration new_start =
                  (store, Inl TypeError)
       | _ \<Rightarrow> update_announcement L store target_id new_title new_message new_expiration new_start =
                (store, Inl (HTTPException 400 ''Invalid date format''))))"
proof (intro conjI impI)
  assume a: "ObjectId L announcement_id = Some obj_id \<and> find_one coll (by_id obj_id) = Some d \<and>
    (title \<noteq> None \<or> message \<noteq> None)"
  then have oid: "ObjectId L announcement_id = Some obj_id"
    and fnd: "find_one coll (by_id obj_id) = Some d"
    and some: "title \<noteq> None \<or> message \<noteq> None \<or> (None :: string option) \<noteq> None \<or> (None :: string option) \<noteq> None"
    by blast+
  from find_one_split [OF fnd] obtain pre post where
    split: "coll = pre @ d # post" "\<forall>x \<in> set pre. \<not> matches (by_id obj_id) x" "matches (by_id obj_id) d"
    by blast
  then have pre: "\<forall>x \<in> set pre. x ''_id'' \<noteq> Some (Oid obj_id)" and d: "d ''_id'' = Some (Oid obj_id)"
    by simp_all
  have chk: "(None :: string option) \<noteq> None \<or> (None :: string option) \<noteq> None \<longrightarrow>
      validate_dates L coll obj_id (build_update_data title message None None) = Inr ()"
    by simp
  from update_announcement_present [OF oid some chk split(1) pre d]
  show "\<exists>coll' r. update_announcement L coll announcement_id title message None None = (coll', Inr r)"
    by blast
next
  assume a: "ObjectId L target_id = Some target \<and> find_one store (by_id target) = Some stored \<and>
    (new_start \<noteq> None \<or> new_expiration \<noteq> None) \<and>
    merged new_start stored ''start_date'' = Str s \<and>
    merged new_expiration stored ''expiration_date'' = Str e"
  then have oid: "ObjectId L target_id = Some target"
    and fnd: "find_one store (by_id target) = Some stored"
    and dates: "new_start \<noteq> None \<or> new_expiration \<noteq> None"
    and ms: "merged new_start stored ''start_date'' = Str s"
    and me: "merged new_expiration stored ''expiration_date'' = Str e"
    by blast+
  let ?u = "build_update_data new_title new_message new_expiration new_start"
  let ?call = "update_announcement L store target_id new_title new_message new_expiration new_start"
  note v = validate_dates_strings [OF fnd ms me, of L new_title new_message]
  from find_one_split [OF fnd] obtain pre post where
    split: "store = pre @ stored # post" "\<forall>x \<in> set pre. \<not> matches (by_id target) x"
      "matches (by_id target) stored"
    by blast
  then have pre: "\<forall>x \<in> set pre. x ''_id'' \<noteq> Some (Oid target)" and d: "stored ''_id'' = Some (Oid target)"
    by simp_all
  have some: "new_title \<noteq> None \<or> new_message \<noteq> None \<or> new_expiration \<noteq> None \<or> new_start \<noteq> None"
    using dates by blast
  have fails: "\<And>x. validate_dates L store target ?u = Inl x \<Longrightarrow> ?call = (store, Inl x)"
    using oid dates by (rule update_announcement_check_fails)
  have passes: "validate_dates L store target ?u = Inr () \<Longrightarrow> \<exists>store' r. ?call = (store', Inr r)"
    using update_announcement_present [OF oid some _ split(1) pre d] by blast
  show "case (fromisoformat L s, fromisoformat L e) of
         (Some start_dt, Some expiry_dt) \<Rightarrow>
           if not_later_than expiry_dt start_dt
           then ?call = (store, Inl (HTTPException 400 ''Expiration date must be after start date''))
           else if later_than expiry_dt start_dt
           then (\<exists>store' r. ?call = (store', Inr r))
           else ?call = (store, Inl TypeError)
       | _ \<Rightarrow> ?call = (store, Inl (HTTPException 400 ''Invalid date format''))"
  proof (cases "fromisoformat L s")
    case None
    with v have "validate_dates L store target ?u = Inl (HTTPException 400 ''Invalid date format'')"
      by simp
    from fails [OF this] None show ?thesis by simp
  next
    case start: (Some start_dt)
    show ?thesis
    proof (cases "fromisoformat L e")
      case None
      with v start have "validate_dates L store target ?u = Inl (HTTPException 400 ''Invalid date format'')"
        by simp
      from fails [OF this] start None show ?thesis by simp
    next
      case (Some expiry_dt)
      consider "not_later_than expiry_dt start_dt"
        | "\<not> not_later_than expiry_dt start_dt" "later_than expiry_dt start_dt"
        | "\<not> not_later_than expiry_dt start_dt" "\<not> later_than expiry_dt start_dt"
        by blast
      then show ?thesis
      proof cases
        case 1
        with v start Some have "validate_dates L store target ?u =
            Inl (HTTPException 400 ''Expiration date must be after start date'')"
          by simp
        from fails [OF this] start Some 1 show ?thesis by simp
      next
        case 2
        with v start Some have "validate_dates L store target ?u = Inr ()"
          by simp
        from passes [OF this] start Some 2 show ?thesis by simp
      next
        case 3
        with v start Some have "validate_dates L store target ?u = Inl TypeError"
          by simp
        from fails [OF this] start Some 3 show ?thesis by simp
      qed
    qed
  qed
qed

text \<open>
  Renaming the \<open>inverted\<close> record succeeds although its dates are in the wrong order;
  and the specification's scenario: moving the expiration date of \<open>exam\<close> to 2023 is
  checked against its stored start date and refused.
\<close>

theorem update_validates_dates_iff_supplied_witness:
  "ObjectId lib inverted_id = Some inverted_oid \<and>
   find_one [exam, inverted] (by_id inverted_oid) = Some inverted \<and>
   \<not> dates_ordered lib inverted \<and>
   (\<exists>coll' r. update_announcement lib [exam, inverted] inverted_id (Some ''Field trip'') None None None =
      (coll', Inr r)) \<and>
   merged None exam ''start_date'' = Str ''2024-01-01T00:00:00'' \<and>
   merged (Some ''2023-01-01T00:00:00'') exam ''expiration_date'' = Str ''2023-01-01T00:00:00'' \<and>
   update_announcement lib [exam, inverted] exam_id None None (Some ''2023-01-01T00:00:00'') None =
     ([exam, inverted], Inl (HTTPException 400 ''Expiration date must be after start date''))"
proof -
  have f: "find_one [exam, inverted] (by_id inverted_oid) = Some inverted"
    "find_one [exam, inverted] (by_id exam_oid) = Some exam"
    by (simp_all add: exam_def inverted_def)
  have o: "\<not> dates_ordered lib inverted"
    by (simp add: dates_ordered_def inverted_def)
  have m: "merged None exam ''start_date'' = Str ''2024-01-01T00:00:00''"
    "merged (Some ''2023-01-01T00:00:00'') exam ''expiration_date'' = Str ''2023-01-01T00:00:00''"
    by (simp_all add: merged_def py_get_def exam_def)
  show ?thesis
    using f o m
      update_validates_dates_iff_supplied [where L = lib and announcement_id = inverted_id
        and obj_id = inverted_oid and coll = "[exam, inverted]" and d = inverted
        and title = "Some ''Field trip''" and message = None
        and target_id = exam_id and target = exam_oid and store = "[exam, inverted]" and stored = exam
        and new_title = None and new_message = None and new_start = None
        and new_expiration = "Some ''2023-01-01T00:00:00''"
        and s = "''2024-01-01T00:00:00''" and e = "''2023-01-01T00:00:00''"]
    by simp
qed

text \<open>
  Claim C8. Delete with a malformed identifier gives status 400; with a well-formed
  identifier that matches no record, status 404; both leave the collection unchanged.
  With an identifier that matches a record, it removes that record and nothing else,
  and returns \<^verbatim>\<open>{"message": "Announcement deleted successfully"}\<close>; no record with the
  identifier is left when identifiers are distinct, as they are in every reachable
  collection.
\<close>

theorem delete_announcement_outcomes:
  "(ObjectId L malformed = None \<longrightarrow>
      delete_announcement L coll malformed = (coll, Inl (HTTPException 400 ''Invalid announcement ID'')))
   \<and>
   (ObjectId L absent_id = Some absent \<and> find_one db (by_id absent) = None \<longrightarrow>
      delete_announcement L db absent_id = (db, Inl (HTTPException 404 ''Announcement not found'')))
   \<and>
   (ObjectId L announcement_id = Some obj_id \<and> find_one store (by_id obj_id) = Some d \<longrightarrow>
      delete_announcement L store announcement_id =
        (remove1 d store, Inr [(''message'', ''Announcement deleted successfully'')]) \<and>
      length (remove1 d store) + 1 = length store \<and>
      (distinct_ids store \<longrightarrow> find_one (remove1 d store) (by_id obj_id) = None))"
proof (intro conjI impI)
  assume "ObjectId L malformed = None"
  then show "delete_announcement L coll malformed = (coll, Inl (HTTPException 400 ''Invalid announcement ID''))"
    by (simp add: delete_announcement_def)
next
  assume a: "ObjectId L absent_id = Some absent \<and> find_one db (by_id absent) = None"
  then have "find_one db (by_id absent) = None" by blast
  then have "\<forall>x \<in> set db. \<not> matches (by_id absent) x"
    by (simp only: find_one_None_iff)
  then have "delete_one db (by_id absent) = (db, 0)"
    by (rule delete_one_none)
  with a show "delete_announcement L db absent_id = (db, Inl (HTTPException 404 ''Announcement not found''))"
    by (simp add: delete_announcement_def)
next
  assume a: "ObjectId L announcement_id = Some obj_id \<and> find_one store (by_id obj_id) = Some d"
  then have fnd: "find_one store (by_id obj_id) = Some d" by blast
  from find_one_split [OF fnd] obtain pre post where
    split: "store = pre @ d # post" "\<forall>x \<in> set pre. \<not> matches (by_id obj_id) x" "matches (by_id obj_id) d"
    by blast
  then have d: "d ''_id'' = Some (Oid obj_id)"
    by simp
  have rem: "remove1 d store = pre @ post"
    unfolding split(1) using split(2,3) by (rule remove1_at)
  have "delete_one store (by_id obj_id) = (pre @ post, 1)"
    unfolding split(1) using split(2,3) by (rule delete_one_at)
  with a rem show "delete_announcement L store announcement_id =
           (remove1 d store, Inr [(''message'', ''Announcement deleted successfully'')])"
    by (simp add: delete_announcement_def)
  show "length (remove1 d store) + 1 = length store"
    unfolding rem by (simp add: split(1))
  assume "distinct_ids store"
  then have "distinct_ids (pre @ d # post)"
    by (simp only: split(1))
  then have "find_one (pre @ post) (by_id obj_id) = None"
    using d by (rule find_one_distinct_removed)
  then show "find_one (remove1 d store) (by_id obj_id) = None"
    by (simp only: rem)
qed

text \<open>
  One call for each of the three outcomes.
\<close>

theorem delete_announcement_outcomes_witness:
  "ObjectId lib ''42'' = None \<and>
   delete_announcement lib [exam, legacy] ''42'' =
     ([exam, legacy], Inl (HTTPException 400 ''Invalid announcement ID'')) \<and>
   ObjectId lib inverted_id = Some inverted_oid \<and> find_one [exam, legacy] (by_id inverted_oid) = None \<and>
   delete_announcement lib [exam, legacy] inverted_id =
     ([exam, legacy], Inl (HTTPException 404 ''Announcement not found'')) \<and>
   ObjectId lib exam_id = Some exam_oid \<and> find_one [exam, legacy] (by_id exam_oid) = Some exam \<and>
   distinct_ids [exam, legacy] \<and>
   delete_announcement lib [exam, legacy] exam_id =
     ([legacy], Inr [(''message'', ''Announcement deleted successfully'')]) \<and>
   find_one [legacy] (by_id exam_oid) = None"
proof -
  have f: "find_one [exam, legacy] (by_id inverted_oid) = None"
    "find_one [exam, legacy] (by_id exam_oid) = Some exam"
    by (simp_all add: exam_def legacy_def)
  have i: "distinct_ids [exam, legacy]"
    by (simp add: distinct_ids_def exam_def legacy_def)
  show ?thesis
    using f i
      delete_announcement_outcomes [where L = lib and malformed = "''42''" and coll = "[exam, legacy]"
        and absent_id = inverted_id and absent = inverted_oid and db = "[exam, legacy]"
        and announcement_id = exam_id and obj_id = exam_oid and store = "[exam, legacy]" and d = exam]
    by simp
qed

text \<open>
  Claim C9. When the record exists and has no \<^verbatim>\<open>start_date\<close> field, or has null there,
  an update that supplies an expiration date and no start date ends in Python's
  \<^verbatim>\<open>TypeError\<close>: \<^verbatim>\<open>datetime.fromisoformat(None)\<close> raises it and line 143 catches
  \<^verbatim>\<open>ValueError\<close> only. The outcome is neither an \<^verbatim>\<open>HTTPException\<close> nor a result, and
  the collection is unchanged.
\<close>

theorem update_missing_start_date_raises_type_error:
  assumes "ObjectId L announcement_id = Some obj_id"
    and "find_one coll (by_id obj_id) = Some d"
    and "d ''start_date'' = None \<or> d ''start_date'' = Some Null"
  shows "update_announcement L coll announcement_id title message (Some expiration_date) None =
           (coll, Inl TypeError)"
proof -
  have "merged None d ''start_date'' = Null"
    using assms(3) by (auto simp: merged_def py_get_def)
  then have "py_fromisoformat L (merged None d ''start_date'') = Inl TypeError"
    by (simp add: py_fromisoformat_def)
  then have "validate_dates L coll obj_id (build_update_data title message (Some expiration_date) None) =
               Inl TypeError"
    unfolding validate_dates_unfold [OF assms(2)] by simp
  with assms(1) show ?thesis
    by (intro update_announcement_check_fails) simp_all
qed

text \<open>
  The \<open>legacy\<close> record has no start date.
\<close>

theorem update_missing_start_date_raises_type_error_witness:
  "ObjectId lib legacy_id = Some legacy_oid \<and>
   find_one [exam, legacy] (by_id legacy_oid) = Some legacy \<and>
   legacy ''start_date'' = None \<and>
   update_announcement lib [exam, legacy] legacy_id None None (Some ''2100-01-01T00:00:00'') None =
     ([exam, legacy], Inl TypeError)"
proof -
  have f: "find_one [exam, legacy] (by_id legacy_oid) = Some legacy"
    by (simp add: exam_def legacy_def)
  have n: "legacy ''start_date'' = None"
    by (simp add: legacy_def)
  from update_missing_start_date_raises_type_error [of lib legacy_id legacy_oid "[exam, legacy]" legacy
      None None "''2100-01-01T00:00:00''"] f n
  show ?thesis by simp
qed

text \<open>
  Claim C10. A create call with the empty string as \<^verbatim>\<open>start_date\<close> is the call without
  \<^verbatim>\<open>start_date\<close>: same collection, same outcome. When it succeeds, the start date it
  has validated against the expiration date, has stored and returns is the clock
  reading \<open>now\<close>.
\<close>

theorem create_empty_start_date_is_omitted:
  "create_announcement L now created fresh coll title message expiration_date (Some []) =
     create_announcement L now created fresh coll title message expiration_date None
   \<and>
   (create_announcement L now created fresh coll title message expiration_date (Some []) = (coll', Inr r) \<longrightarrow>
      r ''start_date'' = Some (Str now) \<and>
      (\<exists>d start_dt expiry_dt.
         coll' = coll @ [d] \<and> d ''start_date'' = Some (Str now) \<and>
         fromisoformat L now = Some start_dt \<and> fromisoformat L expiration_date = Some expiry_dt \<and>
         later_than expiry_dt start_dt))"
proof (intro conjI impI)
  show "create_announcement L now created fresh coll title message expiration_date (Some []) =
     create_announcement L now created fresh coll title message expiration_date None"
    by (simp add: create_announcement_def)
next
  assume c: "create_announcement L now created fresh coll title message expiration_date (Some []) = (coll', Inr r)"
  have eff: "effective_start now (Some []) = now"
    by (simp add: effective_start_def)
  from c obtain start_dt expiry_dt where
    p: "fromisoformat L now = Some start_dt" "fromisoformat L expiration_date = Some expiry_dt"
       "later_than expiry_dt start_dt"
    and res: "coll' = coll @ [[''title'' \<mapsto> Str title, ''message'' \<mapsto> Str message,
               ''start_date'' \<mapsto> Str now, ''expiration_date'' \<mapsto> Str expiration_date,
               ''created_at'' \<mapsto> Str created, ''_id'' \<mapsto> Oid fresh]]"
      "r = [''title'' \<mapsto> Str title, ''message'' \<mapsto> Str message,
            ''start_date'' \<mapsto> Str now, ''expiration_date'' \<mapsto> Str expiration_date,
            ''created_at'' \<mapsto> Str created, ''_id'' \<mapsto> Str (py_str L (Oid fresh))]"
    unfolding create_announcement_unfold eff by (auto split: option.splits if_splits)
  from res(2) show "r ''start_date'' = Some (Str now)"
    by simp
  from res(1) p show "\<exists>d start_dt expiry_dt.
         coll' = coll @ [d] \<and> d ''start_date'' = Some (Str now) \<and>
         fromisoformat L now = Some start_dt \<and> fromisoformat L expiration_date = Some expiry_dt \<and>
         later_than expiry_dt start_dt"
    by simp
qed

text \<open>
  The first call of the specification's scenario with an empty start date, at the
  instant the scenario gives as start date.
\<close>

theorem create_empty_start_date_is_omitted_witness:
  "create_announcement lib ''2024-01-01T00:00:00'' ''2024-01-01T00:00:01'' exam_oid []
     ''Exam'' ''Finals week'' ''2099-01-01T00:00:00'' (Some []) =
   create_announcement lib ''2024-01-01T00:00:00'' ''2024-01-01T00:00:01'' exam_oid []
     ''Exam'' ''Finals week'' ''2099-01-01T00:00:00'' None \<and>
   create_announcement lib ''2024-01-01T00:00:00'' ''2024-01-01T00:00:01'' exam_oid []
     ''Exam'' ''Finals week'' ''2099-01-01T00:00:00'' (Some []) =
     ([exam(''created_at'' \<mapsto> Str ''2024-01-01T00:00:01'')],
      Inr (exam(''created_at'' \<mapsto> Str ''2024-01-01T00:00:01'', ''_id'' \<mapsto> Str exam_id))) \<and>
   (exam(''created_at'' \<mapsto> Str ''2024-01-01T00:00:01'', ''_id'' \<mapsto> Str exam_id)) ''start_date'' =
     Some (Str ''2024-01-01T00:00:00'')"
proof -
  have c: "create_announcement lib ''2024-01-01T00:00:00'' ''2024-01-01T00:00:01'' exam_oid []
     ''Exam'' ''Finals week'' ''2099-01-01T00:00:00'' (Some []) =
     ([exam(''created_at'' \<mapsto> Str ''2024-01-01T00:00:01'')],
      Inr (exam(''created_at'' \<mapsto> Str ''2024-01-01T00:00:01'', ''_id'' \<mapsto> Str exam_id)))"
    by (simp add: create_announcement_unfold effective_start_def exam_def fun_upd_twist)
  from create_empty_start_date_is_omitted [of lib "''2024-01-01T00:00:00''" "''2024-01-01T00:00:01''"
      exam_oid "[]" "''Exam''" "''Finals week''" "''2099-01-01T00:00:00''"
      "[exam(''created_at'' \<mapsto> Str ''2024-01-01T00:00:01'')]"
      "exam(''created_at'' \<mapsto> Str ''2024-01-01T00:00:01'', ''_id'' \<mapsto> Str exam_id)"] c
  show ?thesis by simp
qed

end
